theory Spec2Isabelle
  imports Complex_Main "HOL-Library.Sublist" "HOL-Library.Char_ord" "HOL-Library.List_Lexorder"
begin

section \<open>Conventions\<close>

text \<open>
  A JavaScript \<^verbatim>\<open>Date\<close> and an ISO timestamp column are both the instant they denote:
  an \<open>int\<close> of milliseconds since the epoch (timestamps are whole numbers). A function that
  reads the clock takes the instant as \<open>now\<close>, and one that formats a local date takes the
  offset \<open>tz\<close> of the time zone. Numbers that the program only counts with are \<open>nat\<close> or
  \<open>int\<close>; costs, ratios and scores, which the program computes in double precision, are
  \<open>real\<close> (exact arithmetic, no rounding error). Strings are \<open>string\<close>, their characters
  ASCII; \<^verbatim>\<open>toLowerCase\<close> maps A..Z to a..z. A table of the store is the list of its rows,
  a JavaScript \<^verbatim>\<open>Map\<close> a list of pairs in insertion order. Where two source types share a
  field name, one of the records carries a prefix.
\<close>

section \<open>Types (types/index.ts)\<close>

record HistoryEntry =
  display :: string
  pastedContents :: "(string \<times> string) list option"
  timestamp :: int
  project :: string
  sessionId :: "string option"

record Session =
  s_sessionId :: string
  s_project :: string
  startTime :: int
  endTime :: int
  promptCount :: nat
  duration :: int
  firstPrompt :: string
  lastPrompt :: string

section \<open>Template literals: a number in decimal\<close>

definition digitChar :: "nat \<Rightarrow> char" where
  "digitChar d = ''0123456789'' ! d"

fun string_of_nat :: "nat \<Rightarrow> string" where
  "string_of_nat n =
     (if n < 10 then [digitChar n]
      else string_of_nat (n div 10) @ [digitChar (n mod 10)])"

declare string_of_nat.simps [simp del]

section \<open>Session grouping (parsers/history-parser.ts)\<close>

text \<open>The accumulator \<^verbatim>\<open>currentSession\<close> of \<^verbatim>\<open>groupIntoSessions\<close>.\<close>

record CurrentSession =
  c_sessionId :: "string option"
  c_project :: string
  c_startTime :: int
  c_endTime :: int
  c_prompts :: "HistoryEntry list"

text \<open>\<^verbatim>\<open>currentSession.sessionId || `auto-${sessions.length}`\<close>: an absent and an empty
  identifier are both falsy.\<close>

definition sessionIdOrAuto :: "string option \<Rightarrow> nat \<Rightarrow> string" where
  "sessionIdOrAuto sid n =
     (case sid of
        None \<Rightarrow> ''auto-'' @ string_of_nat n
      | Some s \<Rightarrow> if s = [] then ''auto-'' @ string_of_nat n else s)"

text \<open>The object literal pushed onto \<^verbatim>\<open>sessions\<close>; \<open>n\<close> is \<^verbatim>\<open>sessions.length\<close> at the push.
  Both pushes of the source are guarded by \<^verbatim>\<open>prompts.length > 0\<close>, so \<open>hd\<close> and \<open>last\<close>
  are only read on a non-empty list.\<close>

definition closeSession :: "nat \<Rightarrow> CurrentSession \<Rightarrow> Session" where
  "closeSession n c =
     \<lparr> s_sessionId = sessionIdOrAuto (c_sessionId c) n,
       s_project = c_project c,
       startTime = c_startTime c,
       endTime = c_endTime c,
       promptCount = length (c_prompts c),
       duration = c_endTime c - c_startTime c,
       firstPrompt = display (hd (c_prompts c)),
       lastPrompt = display (last (c_prompts c)) \<rparr>"

definition pushSession :: "Session list \<Rightarrow> CurrentSession option \<Rightarrow> Session list" where
  "pushSession sessions cur =
     (case cur of
        None \<Rightarrow> sessions
      | Some c \<Rightarrow>
          if c_prompts c \<noteq> [] then sessions @ [closeSession (length sessions) c]
          else sessions)"

definition shouldStartNew :: "int \<Rightarrow> CurrentSession option \<Rightarrow> HistoryEntry \<Rightarrow> bool" where
  "shouldStartNew sessionGapMs cur entry =
     (case cur of
        None \<Rightarrow> True
      | Some c \<Rightarrow>
          sessionId entry \<noteq> c_sessionId c \<or>
          project entry \<noteq> c_project c \<or>
          timestamp entry - c_endTime c > sessionGapMs)"

text \<open>One iteration of the \<^verbatim>\<open>for (const entry of sorted)\<close> loop on the pair
  (\<^verbatim>\<open>sessions\<close>, \<^verbatim>\<open>currentSession\<close>).\<close>

definition groupStep ::
  "int \<Rightarrow> Session list \<times> CurrentSession option \<Rightarrow> HistoryEntry
     \<Rightarrow> Session list \<times> CurrentSession option" where
  "groupStep sessionGapMs st entry =
     (let sessions = fst st; cur = snd st in
      if shouldStartNew sessionGapMs cur entry then
        (pushSession sessions cur,
         Some \<lparr> c_sessionId = sessionId entry,
                c_project = project entry,
                c_startTime = timestamp entry,
                c_endTime = timestamp entry,
                c_prompts = [entry] \<rparr>)
      else
        (case cur of
           Some c \<Rightarrow>
             (sessions,
              Some (c\<lparr> c_endTime := timestamp entry, c_prompts := c_prompts c @ [entry] \<rparr>))
         | None \<Rightarrow> (sessions, cur)))"

definition groupLoop ::
  "int \<Rightarrow> HistoryEntry list \<Rightarrow> Session list \<times> CurrentSession option" where
  "groupLoop sessionGapMs sortedEntries = foldl (groupStep sessionGapMs) ([], None) sortedEntries"

text \<open>\<^verbatim>\<open>[...entries].sort((a, b) => a.timestamp - b.timestamp)\<close> is a stable sort on the
  timestamp, as \<open>sort_key\<close> is.\<close>

definition groupIntoSessions :: "HistoryEntry list \<Rightarrow> int \<Rightarrow> Session list" where
  "groupIntoSessions entries sessionGapMs =
     (if entries = [] then []
      else
        let st = groupLoop sessionGapMs (sort_key timestamp entries)
        in pushSession (fst st) (snd st))"

text \<open>The index, in the returned list, of the session that receives the \<open>i\<close>-th entry of
  the sorted list: the number of sessions already pushed once that entry has been
  processed. (An observation of the loop, not a function of the source: the returned
  sessions keep only a count of their entries.)\<close>

definition sessionIndex :: "int \<Rightarrow> HistoryEntry list \<Rightarrow> nat \<Rightarrow> nat" where
  "sessionIndex sessionGapMs sortedEntries i =
     length (fst (groupLoop sessionGapMs (take (Suc i) sortedEntries)))"

section \<open>Skill taxonomy (utils/skill-taxonomy.ts)\<close>

datatype SkillCategory = Framework | Language | Tool | Platform | Concept

record SkillDefinition =
  name :: string
  category :: SkillCategory
  detectionPatterns :: "string list"
  relatedSkills :: "string list"
  learningPath :: "string list"

definition SKILL_TAXONOMY :: "SkillDefinition list" where
  "SKILL_TAXONOMY =
   [
     \<lparr> name = ''Next.js'', category = Framework,
       detectionPatterns = [''next'', ''nextjs'', ''next.js''],
       relatedSkills = [''React'', ''TypeScript'', ''Node.js''],
       learningPath = [''React'', ''Next.js'', ''Next.js Advanced''] \<rparr>,
     \<lparr> name = ''React'', category = Framework,
       detectionPatterns = [''react'', ''react-''],
       relatedSkills = [''JavaScript'', ''TypeScript'', ''JSX''],
       learningPath = [''JavaScript'', ''React'', ''React Hooks'', ''React Advanced''] \<rparr>,
     \<lparr> name = ''Vue'', category = Framework,
       detectionPatterns = [''vue'', ''nuxt''],
       relatedSkills = [''JavaScript'', ''TypeScript''],
       learningPath = [''JavaScript'', ''Vue'', ''Vue 3'', ''Nuxt''] \<rparr>,
     \<lparr> name = ''Angular'', category = Framework,
       detectionPatterns = [''angular'', ''@angular''],
       relatedSkills = [''TypeScript'', ''RxJS''],
       learningPath = [''TypeScript'', ''Angular'', ''Angular Advanced''] \<rparr>,
     \<lparr> name = ''Svelte'', category = Framework,
       detectionPatterns = [''svelte'', ''sveltekit''],
       relatedSkills = [''JavaScript'', ''TypeScript''],
       learningPath = [''JavaScript'', ''Svelte'', ''SvelteKit''] \<rparr>,
     \<lparr> name = ''Express'', category = Framework,
       detectionPatterns = [''express''],
       relatedSkills = [''Node.js'', ''JavaScript''],
       learningPath = [''Node.js'', ''Express'', ''REST APIs''] \<rparr>,
     \<lparr> name = ''Fastify'', category = Framework,
       detectionPatterns = [''fastify''],
       relatedSkills = [''Node.js'', ''JavaScript''],
       learningPath = [''Node.js'', ''Fastify'', ''High Performance APIs''] \<rparr>,
     \<lparr> name = ''NestJS'', category = Framework,
       detectionPatterns = [''nest'', ''@nestjs''],
       relatedSkills = [''TypeScript'', ''Node.js''],
       learningPath = [''TypeScript'', ''NestJS'', ''Microservices''] \<rparr>,
     \<lparr> name = ''Rails'', category = Framework,
       detectionPatterns = [''rails'', ''ruby-on-rails''],
       relatedSkills = [''Ruby'', ''ActiveRecord'', ''PostgreSQL''],
       learningPath = [''Ruby'', ''Rails'', ''Rails Advanced''] \<rparr>,
     \<lparr> name = ''TypeScript'', category = Language,
       detectionPatterns = [''typescript'', ''.ts'', ''tsconfig''],
       relatedSkills = [''JavaScript'', ''Node.js''],
       learningPath = [''JavaScript'', ''TypeScript'', ''TypeScript Advanced''] \<rparr>,
     \<lparr> name = ''JavaScript'', category = Language,
       detectionPatterns = [''javascript'', ''.js'', ''node''],
       relatedSkills = [''HTML'', ''CSS''],
       learningPath = [''JavaScript'', ''ES6+'', ''Async/Await''] \<rparr>,
     \<lparr> name = ''Python'', category = Language,
       detectionPatterns = [''python'', ''.py'', ''pip''],
       relatedSkills = [''Django'', ''Flask'', ''FastAPI''],
       learningPath = [''Python'', ''Python OOP'', ''Python Advanced''] \<rparr>,
     \<lparr> name = ''Ruby'', category = Language,
       detectionPatterns = [''ruby'', ''.rb'', ''gemfile''],
       relatedSkills = [''Rails''],
       learningPath = [''Ruby'', ''Ruby OOP'', ''Rails''] \<rparr>,
     \<lparr> name = ''Go'', category = Language,
       detectionPatterns = [''golang'', ''go.mod'', ''/go/''],
       relatedSkills = [''Microservices'', ''Docker''],
       learningPath = [''Go'', ''Go Concurrency'', ''Go Advanced''] \<rparr>,
     \<lparr> name = ''Rust'', category = Language,
       detectionPatterns = [''rust'', ''cargo'', ''.rs''],
       relatedSkills = [''Systems Programming''],
       learningPath = [''Rust'', ''Rust Ownership'', ''Rust Advanced''] \<rparr>,
     \<lparr> name = ''Git'', category = Tool,
       detectionPatterns = [''git'', ''.git'', ''github''],
       relatedSkills = [''Version Control''],
       learningPath = [''Git Basics'', ''Git Branching'', ''Git Advanced''] \<rparr>,
     \<lparr> name = ''Docker'', category = Tool,
       detectionPatterns = [''docker'', ''dockerfile'', ''container''],
       relatedSkills = [''DevOps'', ''Kubernetes''],
       learningPath = [''Docker'', ''Docker Compose'', ''Kubernetes''] \<rparr>,
     \<lparr> name = ''Webpack'', category = Tool,
       detectionPatterns = [''webpack'', ''webpack.config''],
       relatedSkills = [''JavaScript'', ''Build Tools''],
       learningPath = [''Webpack'', ''Webpack Optimization''] \<rparr>,
     \<lparr> name = ''Vite'', category = Tool,
       detectionPatterns = [''vite'', ''vite.config''],
       relatedSkills = [''JavaScript'', ''Build Tools''],
       learningPath = [''Vite'', ''Vite Advanced''] \<rparr>,
     \<lparr> name = ''PostgreSQL'', category = Platform,
       detectionPatterns = [''postgres'', ''postgresql'', ''psql''],
       relatedSkills = [''SQL'', ''Database Design''],
       learningPath = [''SQL'', ''PostgreSQL'', ''Database Optimization''] \<rparr>,
     \<lparr> name = ''MongoDB'', category = Platform,
       detectionPatterns = [''mongo'', ''mongodb''],
       relatedSkills = [''NoSQL'', ''Database Design''],
       learningPath = [''MongoDB'', ''Mongoose'', ''MongoDB Advanced''] \<rparr>,
     \<lparr> name = ''Redis'', category = Platform,
       detectionPatterns = [''redis''],
       relatedSkills = [''Caching'', ''In-Memory Databases''],
       learningPath = [''Redis'', ''Redis Advanced''] \<rparr>,
     \<lparr> name = ''AWS'', category = Platform,
       detectionPatterns = [''aws'', ''amazon-web-services'', ''s3'', ''ec2'', ''lambda''],
       relatedSkills = [''Cloud'', ''DevOps''],
       learningPath = [''AWS Basics'', ''AWS Services'', ''AWS Architecture''] \<rparr>,
     \<lparr> name = ''Vercel'', category = Platform,
       detectionPatterns = [''vercel''],
       relatedSkills = [''Next.js'', ''Deployment''],
       learningPath = [''Vercel'', ''Edge Functions''] \<rparr>,
     \<lparr> name = ''Vitest'', category = Tool,
       detectionPatterns = [''vitest''],
       relatedSkills = [''Testing'', ''JavaScript''],
       learningPath = [''Testing Basics'', ''Vitest'', ''Advanced Testing''] \<rparr>,
     \<lparr> name = ''Jest'', category = Tool,
       detectionPatterns = [''jest''],
       relatedSkills = [''Testing'', ''JavaScript''],
       learningPath = [''Testing Basics'', ''Jest'', ''Advanced Testing''] \<rparr>,
     \<lparr> name = ''AI/ML'', category = Concept,
       detectionPatterns = [''ai'', ''ml'', ''machine-learning'', ''neural'', ''llm''],
       relatedSkills = [''Python'', ''TensorFlow'', ''PyTorch''],
       learningPath = [''ML Basics'', ''Deep Learning'', ''Production ML''] \<rparr>,
     \<lparr> name = ''Web Audio'', category = Concept,
       detectionPatterns = [''audio'', ''tone.js'', ''web-audio'', ''sound'', ''music''],
       relatedSkills = [''JavaScript'', ''Signal Processing''],
       learningPath = [''Web Audio API'', ''Audio Processing'', ''Music Theory''] \<rparr>,
     \<lparr> name = ''Claude Code'', category = Tool,
       detectionPatterns = [''claude'', ''claude-code'', ''anthropic''],
       relatedSkills = [''AI-Assisted Development'', ''Prompt Engineering''],
       learningPath = [''Claude Basics'', ''Prompt Optimization'', ''Claude Advanced''] \<rparr>
   ]"

text \<open>\<^verbatim>\<open>String.prototype.toLowerCase\<close> on ASCII: the letters A..Z (codes 65..90) move to
  a..z, every other character stays.\<close>

definition lowerChar :: "char \<Rightarrow> char" where
  "lowerChar c =
     (if 65 \<le> (of_char c :: nat) \<and> (of_char c :: nat) \<le> 90
      then char_of ((of_char c :: nat) + 32) else c)"

definition toLowerCase :: "string \<Rightarrow> string" where
  "toLowerCase s = map lowerChar s"

text \<open>\<^verbatim>\<open>s.includes(p)\<close>: \<open>p\<close> occurs in \<open>s\<close> as a contiguous substring.\<close>

definition includesStr :: "string \<Rightarrow> string \<Rightarrow> bool" where
  "includesStr s p = sublist p s"

text \<open>The inner loop of \<^verbatim>\<open>detectSkillsFromPath\<close>: the first pattern found in the path
  ends the loop (\<^verbatim>\<open>break\<close>).\<close>

fun matchesAnyPattern :: "string \<Rightarrow> string list \<Rightarrow> bool" where
  "matchesAnyPattern lowerPath [] = False"
| "matchesAnyPattern lowerPath (pattern # rest) =
     (if includesStr lowerPath (toLowerCase pattern) then True
      else matchesAnyPattern lowerPath rest)"

text \<open>The outer loop: one \<^verbatim>\<open>detected.push(skill.name)\<close> for a skill that matches.\<close>

fun detectLoop :: "string \<Rightarrow> SkillDefinition list \<Rightarrow> string list" where
  "detectLoop lowerPath [] = []"
| "detectLoop lowerPath (skill # rest) =
     (if matchesAnyPattern lowerPath (detectionPatterns skill)
      then name skill # detectLoop lowerPath rest
      else detectLoop lowerPath rest)"

definition detectSkillsFromPath :: "string \<Rightarrow> string list" where
  "detectSkillsFromPath projectPath = detectLoop (toLowerCase projectPath) SKILL_TAXONOMY"

section \<open>Store (database/schema.ts)\<close>

text \<open>A table is the list of its rows in insertion order. \<^verbatim>\<open>datetime('now')\<close> and
  \<^verbatim>\<open>new Date()\<close> read the clock; the model passes the instant as \<open>now\<close>.\<close>

record SessionRow =
  session_id :: string
  r_project :: string
  start_time :: int
  end_time :: int
  prompt_count :: nat
  duration_ms :: int
  first_prompt :: string
  last_prompt :: string
  created_at :: int

record PromptRow =
  prompt_id :: nat
  p_session_id :: string
  p_project :: string
  p_display :: string
  p_timestamp :: int
  pasted_contents_count :: nat
  p_created_at :: int

record ProjectRow =
  project_path :: string
  first_seen :: int
  last_active :: int
  total_prompts :: nat
  total_sessions :: nat
  total_duration_ms :: int
  lines_added :: int
  lines_removed :: int
  total_cost :: real
  input_tokens :: int
  output_tokens :: int
  cache_creation_tokens :: int
  cache_read_tokens :: int
  updated_at :: int

text \<open>A value of an achievement's \<^verbatim>\<open>metadata\<close> record: a number or a string.\<close>

datatype MetaValue = MNum real | MStr string

datatype AchievementType = Streak | Skill | Cost | Productivity | Milestone

text \<open>An icon is an emoji: the list of its Unicode code points.\<close>

record AchievementRow =
  achievement_id :: string
  a_type :: AchievementType
  a_title :: string
  a_description :: string
  a_icon :: "nat list"
  unlocked_at :: int
  a_metadata :: "(string \<times> MetaValue) list option"

text \<open>The metadata table only ever holds \<^verbatim>\<open>last_sync_time\<close>, an ISO timestamp.\<close>

record MetadataRow =
  meta_key :: string
  meta_value :: int
  meta_updated_at :: int

text \<open>The tables of \<^verbatim>\<open>applySchema\<close> that the analytics read or write. The achievements
  table is created on demand by the achievement functions, so it may be absent.\<close>

record Database =
  sessions :: "SessionRow list"
  prompts :: "PromptRow list"
  projects :: "ProjectRow list"
  achievements :: "AchievementRow list option"
  metadata :: "MetadataRow list"

definition emptyDatabase :: Database where
  "emptyDatabase =
     \<lparr> sessions = [], prompts = [], projects = [], achievements = None, metadata = [] \<rparr>"

text \<open>\<^verbatim>\<open>INSERT ... ON CONFLICT(session_id) DO UPDATE SET end_time, prompt_count,
  duration_ms, last_prompt\<close>.\<close>

definition upsertSession :: "Database \<Rightarrow> int \<Rightarrow> Session \<Rightarrow> Database" where
  "upsertSession db now session =
     (if \<exists>r \<in> set (sessions db). session_id r = s_sessionId session then
        db\<lparr> sessions :=
              map (\<lambda>r. if session_id r = s_sessionId session
                        then r\<lparr> end_time := endTime session,
                                prompt_count := promptCount session,
                                duration_ms := duration session,
                                last_prompt := lastPrompt session \<rparr>
                        else r)
                  (sessions db) \<rparr>
      else
        db\<lparr> sessions := sessions db @
              [\<lparr> session_id = s_sessionId session,
                 r_project = s_project session,
                 start_time = startTime session,
                 end_time = endTime session,
                 prompt_count = promptCount session,
                 duration_ms = duration session,
                 first_prompt = firstPrompt session,
                 last_prompt = lastPrompt session,
                 created_at = now \<rparr>] \<rparr>)"

text \<open>The argument of \<^verbatim>\<open>insertPrompt\<close>. The \<^verbatim>\<open>AUTOINCREMENT\<close> key is one more than the
  number of rows, no row being ever deleted.\<close>

record PromptInput =
  pi_sessionId :: string
  pi_project :: string
  pi_display :: string
  pi_timestamp :: int
  pi_pastedContentsCount :: nat

definition insertPrompt :: "Database \<Rightarrow> int \<Rightarrow> PromptInput \<Rightarrow> Database" where
  "insertPrompt db now prompt =
     db\<lparr> prompts := prompts db @
           [\<lparr> prompt_id = Suc (length (prompts db)),
              p_session_id = pi_sessionId prompt,
              p_project = pi_project prompt,
              p_display = pi_display prompt,
              p_timestamp = pi_timestamp prompt,
              pasted_contents_count = pi_pastedContentsCount prompt,
              p_created_at = now \<rparr>] \<rparr>"

text \<open>The argument of \<^verbatim>\<open>upsertProjectStats\<close>.\<close>

record ProjectStatsInput =
  projectPath :: string
  firstSeen :: int
  lastActive :: int
  totalPrompts :: nat
  totalSessions :: nat
  totalDuration :: int
  linesAdded :: int
  linesRemoved :: int
  totalCost :: real
  inputTokens :: int
  outputTokens :: int
  cacheCreationTokens :: int
  cacheReadTokens :: int

text \<open>\<^verbatim>\<open>INSERT ... ON CONFLICT(project_path) DO UPDATE SET\<close> every column but
  \<^verbatim>\<open>project_path\<close> and \<^verbatim>\<open>first_seen\<close>, each to the new (\<^verbatim>\<open>excluded\<close>) value.\<close>

definition upsertProjectStats :: "Database \<Rightarrow> int \<Rightarrow> ProjectStatsInput \<Rightarrow> Database" where
  "upsertProjectStats db now stats =
     (if \<exists>r \<in> set (projects db). project_path r = projectPath stats then
        db\<lparr> projects :=
              map (\<lambda>r. if project_path r = projectPath stats
                        then r\<lparr> last_active := lastActive stats,
                                total_prompts := totalPrompts stats,
                                total_sessions := totalSessions stats,
                                total_duration_ms := totalDuration stats,
                                lines_added := linesAdded stats,
                                lines_removed := linesRemoved stats,
                                total_cost := totalCost stats,
                                input_tokens := inputTokens stats,
                                output_tokens := outputTokens stats,
                                cache_creation_tokens := cacheCreationTokens stats,
                                cache_read_tokens := cacheReadTokens stats,
                                updated_at := now \<rparr>
                        else r)
                  (projects db) \<rparr>
      else
        db\<lparr> projects := projects db @
              [\<lparr> project_path = projectPath stats,
                 first_seen = firstSeen stats,
                 last_active = lastActive stats,
                 total_prompts = totalPrompts stats,
                 total_sessions = totalSessions stats,
                 total_duration_ms = totalDuration stats,
                 lines_added = linesAdded stats,
                 lines_removed = linesRemoved stats,
                 total_cost = totalCost stats,
                 input_tokens = inputTokens stats,
                 output_tokens = outputTokens stats,
                 cache_creation_tokens = cacheCreationTokens stats,
                 cache_read_tokens = cacheReadTokens stats,
                 updated_at = now \<rparr>] \<rparr>)"

definition setMetadata :: "Database \<Rightarrow> int \<Rightarrow> string \<Rightarrow> int \<Rightarrow> Database" where
  "setMetadata db now k v =
     (if \<exists>r \<in> set (metadata db). meta_key r = k then
        db\<lparr> metadata :=
              map (\<lambda>r. if meta_key r = k then r\<lparr> meta_value := v, meta_updated_at := now \<rparr>
                        else r)
                  (metadata db) \<rparr>
      else
        db\<lparr> metadata := metadata db @
              [\<lparr> meta_key = k, meta_value = v, meta_updated_at = now \<rparr>] \<rparr>)"

definition getMetadata :: "Database \<Rightarrow> string \<Rightarrow> int option" where
  "getMetadata db k = map_option meta_value (find (\<lambda>r. meta_key r = k) (metadata db))"

section \<open>Sync (utils/sync.ts)\<close>

text \<open>The fields of a project's metrics in \<^verbatim>\<open>.claude.json\<close> that the sync reads; the schema
  defaults each to 0.\<close>

record ProjectMetrics =
  lastCost :: real
  lastLinesAdded :: int
  lastLinesRemoved :: int
  lastTotalInputTokens :: int
  lastTotalOutputTokens :: int
  lastTotalCacheCreationInputTokens :: int
  lastTotalCacheReadInputTokens :: int

text \<open>An entry of \<^verbatim>\<open>result.errors\<close>. The statements of the model cannot fail, so only the
  outer \<^verbatim>\<open>catch\<close> (a file that cannot be read or parsed) adds one.\<close>

datatype SyncError = SyncFailed

record SyncResult =
  promptsProcessed :: nat
  sessionsCreated :: nat
  projectsUpdated :: nat
  errors :: "SyncError list"
  lastSyncTime :: int

text \<open>A value of the \<^verbatim>\<open>projectStats\<close> map.\<close>

record SessionStats =
  ss_firstSeen :: int
  ss_lastActive :: int
  ss_totalPrompts :: nat
  ss_totalSessions :: nat
  ss_totalDuration :: int

text \<open>The \<^verbatim>\<open>if (existing)\<close> branch of the loop that fills \<^verbatim>\<open>projectStats\<close>.\<close>

definition bumpStats :: "Session \<Rightarrow> SessionStats \<Rightarrow> SessionStats" where
  "bumpStats session existing =
     existing\<lparr> ss_lastActive := max (ss_lastActive existing) (endTime session),
               ss_totalPrompts := ss_totalPrompts existing + promptCount session,
               ss_totalSessions := ss_totalSessions existing + 1,
               ss_totalDuration := ss_totalDuration existing + duration session \<rparr>"

text \<open>One iteration of that loop; \<^verbatim>\<open>projectStats\<close> is a map in insertion order.\<close>

definition addSessionStats ::
  "(string \<times> SessionStats) list \<Rightarrow> Session \<Rightarrow> (string \<times> SessionStats) list" where
  "addSessionStats projectStats session =
     (case map_of projectStats (s_project session) of
        Some existing \<Rightarrow>
          map (\<lambda>kv. if fst kv = s_project session
                     then (fst kv, bumpStats session (snd kv)) else kv)
              projectStats
      | None \<Rightarrow>
          projectStats @
            [(s_project session,
              \<lparr> ss_firstSeen = startTime session,
                ss_lastActive = endTime session,
                ss_totalPrompts = promptCount session,
                ss_totalSessions = 1,
                ss_totalDuration = duration session \<rparr>)])"

text \<open>\<^verbatim>\<open>new Set([...])\<close> iterates each key once, in order of first occurrence.\<close>

definition uniqueKeys :: "string list \<Rightarrow> string list" where
  "uniqueKeys ks = foldl (\<lambda>acc k. if k \<in> set acc then acc else acc @ [k]) [] ks"

text \<open>The argument built for \<^verbatim>\<open>upsertProjectStats\<close> from the two sources.\<close>

definition mergedStats ::
  "int \<Rightarrow> (string \<times> SessionStats) list \<Rightarrow> (string \<times> ProjectMetrics) list \<Rightarrow> string
     \<Rightarrow> ProjectStatsInput" where
  "mergedStats now projectStats configProjects path =
     (let sessionData = map_of projectStats path;
          configData = map_of configProjects path in
      \<lparr> projectPath = path,
        firstSeen = (case sessionData of Some s \<Rightarrow> ss_firstSeen s | None \<Rightarrow> now),
        lastActive = (case sessionData of Some s \<Rightarrow> ss_lastActive s | None \<Rightarrow> now),
        totalPrompts = (case sessionData of Some s \<Rightarrow> ss_totalPrompts s | None \<Rightarrow> 0),
        totalSessions = (case sessionData of Some s \<Rightarrow> ss_totalSessions s | None \<Rightarrow> 0),
        totalDuration = (case sessionData of Some s \<Rightarrow> ss_totalDuration s | None \<Rightarrow> 0),
        linesAdded = (case configData of Some m \<Rightarrow> lastLinesAdded m | None \<Rightarrow> 0),
        linesRemoved = (case configData of Some m \<Rightarrow> lastLinesRemoved m | None \<Rightarrow> 0),
        totalCost = (case configData of Some m \<Rightarrow> lastCost m | None \<Rightarrow> 0),
        inputTokens = (case configData of Some m \<Rightarrow> lastTotalInputTokens m | None \<Rightarrow> 0),
        outputTokens = (case configData of Some m \<Rightarrow> lastTotalOutputTokens m | None \<Rightarrow> 0),
        cacheCreationTokens =
          (case configData of Some m \<Rightarrow> lastTotalCacheCreationInputTokens m | None \<Rightarrow> 0),
        cacheReadTokens =
          (case configData of Some m \<Rightarrow> lastTotalCacheReadInputTokens m | None \<Rightarrow> 0) \<rparr>)"

text \<open>The entries the sync processes: all of them on a first sync, those strictly newer
  than the watermark afterwards.\<close>

definition entriesToProcess :: "Database \<Rightarrow> HistoryEntry list \<Rightarrow> HistoryEntry list" where
  "entriesToProcess db historyEntries =
     (case getMetadata db ''last_sync_time'' of
        None \<Rightarrow> historyEntries
      | Some lastSync \<Rightarrow> filter (\<lambda>entry. timestamp entry > lastSync) historyEntries)"

text \<open>One iteration of the loop that inserts the prompts: the first session that contains
  the entry's timestamp and has its project receives it; an entry with no such session is
  skipped.\<close>

definition insertPromptFor ::
  "int \<Rightarrow> Session list \<Rightarrow> Database \<times> nat \<Rightarrow> HistoryEntry \<Rightarrow> Database \<times> nat" where
  "insertPromptFor now ss st entry =
     (case find (\<lambda>s. timestamp entry \<ge> startTime s \<and> timestamp entry \<le> endTime s \<and>
                      s_project s = project entry) ss of
        Some session \<Rightarrow>
          (insertPrompt (fst st) now
             \<lparr> pi_sessionId = s_sessionId session,
               pi_project = project entry,
               pi_display = display entry,
               pi_timestamp = timestamp entry,
               pi_pastedContentsCount =
                 (case pastedContents entry of None \<Rightarrow> 0 | Some kvs \<Rightarrow> length kvs) \<rparr>,
           Suc (snd st))
      | None \<Rightarrow> st)"

text \<open>The four loops of \<^verbatim>\<open>syncData\<close>: insert sessions, insert prompts (with the count
  of prompts inserted), calculate project stats from sessions, update project stats.\<close>

definition insertSessions :: "Database \<Rightarrow> int \<Rightarrow> Session list \<Rightarrow> Database" where
  "insertSessions db now ss = foldl (\<lambda>d session. upsertSession d now session) db ss"

definition insertPrompts ::
  "Database \<Rightarrow> int \<Rightarrow> Session list \<Rightarrow> HistoryEntry list \<Rightarrow> Database \<times> nat" where
  "insertPrompts db now ss todo = foldl (insertPromptFor now ss) (db, 0) todo"

definition calculateProjectStats :: "Session list \<Rightarrow> (string \<times> SessionStats) list" where
  "calculateProjectStats ss = foldl addSessionStats [] ss"

definition allProjects ::
  "(string \<times> SessionStats) list \<Rightarrow> (string \<times> ProjectMetrics) list \<Rightarrow> string list" where
  "allProjects projectStats configProjects =
     uniqueKeys (map fst projectStats @ map fst configProjects)"

definition updateProjectStats ::
  "Database \<Rightarrow> int \<Rightarrow> (string \<times> SessionStats) list \<Rightarrow> (string \<times> ProjectMetrics) list
     \<Rightarrow> Database" where
  "updateProjectStats db now projectStats configProjects =
     foldl (\<lambda>d path. upsertProjectStats d now (mergedStats now projectStats configProjects path))
       db (allProjects projectStats configProjects)"

text \<open>\<^verbatim>\<open>syncData\<close>. The two files are inputs: \<open>None\<close> stands for a read that throws (a
  missing file does not throw: it reads as no entries, or no projects), which the outer
  \<^verbatim>\<open>catch\<close> turns into an error of the result, the watermark staying as it was. The
  sessions are grouped with the default gap of 30 minutes. The clock is read once.\<close>

definition syncData ::
  "Database \<Rightarrow> int \<Rightarrow> HistoryEntry list option \<Rightarrow> (string \<times> ProjectMetrics) list option
     \<Rightarrow> SyncResult \<times> Database" where
  "syncData db now historyFile configFile =
     (let result = \<lparr> promptsProcessed = 0, sessionsCreated = 0, projectsUpdated = 0,
                     errors = [], lastSyncTime = now \<rparr> in
      case historyFile of
        None \<Rightarrow> (result\<lparr> errors := [SyncFailed] \<rparr>, db)
      | Some historyEntries \<Rightarrow>
          let todo = entriesToProcess db historyEntries;
              ss = groupIntoSessions todo 1800000;
              db1 = insertSessions db now ss;
              result1 = result\<lparr> sessionsCreated := length ss \<rparr>;
              st2 = insertPrompts db1 now ss todo;
              result2 = result1\<lparr> promptsProcessed := snd st2 \<rparr>;
              projectStats = calculateProjectStats ss
          in
          (case configFile of
             None \<Rightarrow> (result2\<lparr> errors := [SyncFailed] \<rparr>, fst st2)
           | Some configProjects \<Rightarrow>
               let db3 = updateProjectStats (fst st2) now projectStats configProjects;
                   result3 = result2\<lparr> projectsUpdated :=
                               length (allProjects projectStats configProjects) \<rparr>
               in (result3, setMetadata db3 now ''last_sync_time'' now)))"

section \<open>Dates\<close>

text \<open>A day has 86400000 milliseconds. \<open>utcDay\<close> is the number of the UTC calendar day of
  an instant (what SQLite's \<^verbatim>\<open>DATE(start_time)\<close> names), \<open>localDay\<close> the number of the
  calendar day in a time zone \<open>tz\<close> milliseconds ahead of UTC (what
  \<^verbatim>\<open>format(date, 'yyyy-MM-dd')\<close> names); the zone has no daylight saving.
  \<^verbatim>\<open>differenceInDays\<close> of date-fns is the number of full days between two instants,
  truncated towards zero.\<close>

definition msPerDay :: int where
  "msPerDay = 86400000"

definition utcDay :: "int \<Rightarrow> int" where
  "utcDay t = t div msPerDay"

definition localDay :: "int \<Rightarrow> int \<Rightarrow> int" where
  "localDay tz t = (t + tz) div msPerDay"

definition differenceInDays :: "int \<Rightarrow> int \<Rightarrow> int" where
  "differenceInDays dateLeft dateRight =
     (if dateLeft \<ge> dateRight then (dateLeft - dateRight) div msPerDay
      else - ((dateRight - dateLeft) div msPerDay))"

section \<open>Skill proficiency (utils/skill-proficiency.ts)\<close>

datatype ProficiencyLevel = Beginner | Intermediate | Advanced | Expert

text \<open>The argument of \<^verbatim>\<open>calculateProficiencyScore\<close>. The usage count is a count of
  sessions, so it is a \<open>nat\<close> and the logarithm is taken of a number that is at least 1.\<close>

record SkillMetrics =
  usageCount :: nat
  daysSinceFirstUse :: int
  consistency :: real
  depth :: real

definition calculateProficiencyScore :: "SkillMetrics \<Rightarrow> real" where
  "calculateProficiencyScore metrics =
     (let usageScore = min 100 (log 10 (real (usageCount metrics) + 1) * 40);
          timeScore = min 100 ((real_of_int (daysSinceFirstUse metrics) / 365) * 50);
          consistencyScore = consistency metrics;
          depthScore = depth metrics
      in usageScore * 0.4 + timeScore * 0.2 + consistencyScore * 0.2 + depthScore * 0.2)"

definition getProficiencyLevel :: "real \<Rightarrow> ProficiencyLevel" where
  "getProficiencyLevel score =
     (if score \<ge> 80 then Expert
      else if score \<ge> 60 then Advanced
      else if score \<ge> 30 then Intermediate
      else Beginner)"

text \<open>\<^verbatim>\<open>Math.max(0, 10 - usageCount)\<close> on a count is the truncating subtraction of \<open>nat\<close>.\<close>

definition getNextMilestone :: "ProficiencyLevel \<Rightarrow> nat \<Rightarrow> string" where
  "getNextMilestone level n =
     (case level of
        Beginner \<Rightarrow>
          (let sessionsNeeded = 10 - n in
           if sessionsNeeded > 0
           then string_of_nat sessionsNeeded @ '' more sessions to reach intermediate''
           else ''Ready for intermediate level!'')
      | Intermediate \<Rightarrow>
          (let advancedNeeded = 50 - n in
           if advancedNeeded > 0
           then string_of_nat advancedNeeded @ '' more sessions to reach advanced''
           else ''Ready for advanced level!'')
      | Advanced \<Rightarrow>
          (let expertNeeded = 150 - n in
           if expertNeeded > 0
           then string_of_nat expertNeeded @ '' more sessions to reach expert''
           else ''Ready for expert level!'')
      | Expert \<Rightarrow> ''Mastery achieved! Consider mentoring others'')"

record SkillProficiency =
  sp_skill :: string
  sp_category :: SkillCategory
  sp_level :: ProficiencyLevel
  sp_proficiency :: int
  sp_usageCount :: nat
  sp_firstUsed :: int
  sp_lastUsed :: int
  sp_daysSinceFirstUse :: int
  sp_consistency :: int
  sp_depth :: int
  sp_relatedSkills :: "string list"
  sp_nextMilestone :: string

text \<open>A row of the query of \<^verbatim>\<open>analyzeSkillProficiency\<close>: the sessions grouped by
  project. SQLite returns the groups in the order of the project column (the byte order
  of the text, which on ASCII strings is the lexicographic order of the characters). A
  group is never empty, so \<open>hd\<close> reads a row.\<close>

record ProjectSessions =
  ps_project :: string
  session_count :: nat
  avg_prompts :: real
  first_session :: int
  last_session :: int

definition sessionsByProject :: "Database \<Rightarrow> ProjectSessions list" where
  "sessionsByProject db =
     map (\<lambda>p.
            let rows = filter (\<lambda>r. r_project r = p) (sessions db) in
            \<lparr> ps_project = p,
              session_count = length rows,
              avg_prompts = real (sum_list (map prompt_count rows)) / real (length rows),
              first_session = fold min (map start_time rows) (start_time (hd rows)),
              last_session = fold max (map start_time rows) (start_time (hd rows)) \<rparr>)
         (sort (remdups (map r_project (sessions db))))"

text \<open>A value of \<^verbatim>\<open>skillMap\<close>.\<close>

record SkillData =
  sd_sessions :: nat
  sd_firstUsed :: int
  sd_lastUsed :: int
  sd_avgDepth :: real
  sd_projects :: "string list"

definition mergeSkillData :: "ProjectSessions \<Rightarrow> SkillData \<Rightarrow> SkillData" where
  "mergeSkillData p existing =
     existing\<lparr> sd_sessions := sd_sessions existing + session_count p,
               sd_firstUsed := (if first_session p < sd_firstUsed existing
                                then first_session p else sd_firstUsed existing),
               sd_lastUsed := (if last_session p > sd_lastUsed existing
                               then last_session p else sd_lastUsed existing),
               sd_avgDepth := (sd_avgDepth existing + avg_prompts p) / 2,
               sd_projects := sd_projects existing @ [ps_project p] \<rparr>"

definition addSkillUse ::
  "ProjectSessions \<Rightarrow> (string \<times> SkillData) list \<Rightarrow> string \<Rightarrow> (string \<times> SkillData) list" where
  "addSkillUse p skillMap skill =
     (case map_of skillMap skill of
        Some existing \<Rightarrow>
          map (\<lambda>kv. if fst kv = skill then (fst kv, mergeSkillData p (snd kv)) else kv) skillMap
      | None \<Rightarrow>
          skillMap @
            [(skill,
              \<lparr> sd_sessions = session_count p,
                sd_firstUsed = first_session p,
                sd_lastUsed = last_session p,
                sd_avgDepth = avg_prompts p,
                sd_projects = [ps_project p] \<rparr>)])"

definition buildSkillMap :: "ProjectSessions list \<Rightarrow> (string \<times> SkillData) list" where
  "buildSkillMap ps =
     foldl (\<lambda>skillMap p. foldl (addSkillUse p) skillMap (detectSkillsFromPath (ps_project p)))
       [] ps"

definition getSkillDefinition :: "string \<Rightarrow> SkillDefinition option" where
  "getSkillDefinition skillName =
     find (\<lambda>s. toLowerCase (name s) = toLowerCase skillName) SKILL_TAXONOMY"

text \<open>The body of the loop over \<^verbatim>\<open>skillMap.entries()\<close>. \<^verbatim>\<open>Math.round\<close> rounds half up,
  as \<open>round\<close> does.\<close>

definition skillProficiencyOf :: "int \<Rightarrow> string \<times> SkillData \<Rightarrow> SkillProficiency" where
  "skillProficiencyOf now kv =
     (let skill = fst kv; data = snd kv;
          daysFirst = differenceInDays now (sd_firstUsed data);
          daysLast = differenceInDays now (sd_lastUsed data);
          recencyScore = max 0 (100 - real_of_int daysLast * 2);
          regularityScore =
            min 100 ((real (sd_sessions data) / real_of_int (max 1 daysFirst)) * 100);
          consistencyValue = (recencyScore + regularityScore) / 2;
          depthValue = min 100 ((sd_avgDepth data / 10) * 100);
          proficiencyScore =
            calculateProficiencyScore
              \<lparr> usageCount = sd_sessions data, daysSinceFirstUse = daysFirst,
                consistency = consistencyValue, depth = depthValue \<rparr>;
          level = getProficiencyLevel proficiencyScore;
          skillDef = getSkillDefinition skill
      in \<lparr> sp_skill = skill,
           sp_category = (case skillDef of Some d \<Rightarrow> category d | None \<Rightarrow> Concept),
           sp_level = level,
           sp_proficiency = round proficiencyScore,
           sp_usageCount = sd_sessions data,
           sp_firstUsed = sd_firstUsed data,
           sp_lastUsed = sd_lastUsed data,
           sp_daysSinceFirstUse = daysFirst,
           sp_consistency = round consistencyValue,
           sp_depth = round depthValue,
           sp_relatedSkills = (case skillDef of Some d \<Rightarrow> relatedSkills d | None \<Rightarrow> []),
           sp_nextMilestone = getNextMilestone level (sd_sessions data) \<rparr>)"

text \<open>The result is sorted by proficiency, highest first; the sort is stable.\<close>

definition analyzeSkillProficiency :: "Database \<Rightarrow> int \<Rightarrow> SkillProficiency list" where
  "analyzeSkillProficiency db now =
     sort_key (\<lambda>p. - sp_proficiency p)
       (map (skillProficiencyOf now) (buildSkillMap (sessionsByProject db)))"

section \<open>Achievements (utils/achievements.ts)\<close>

record Achievement =
  ach_id :: string
  ach_type :: AchievementType
  title :: string
  description :: string
  icon :: "nat list"
  unlockedAt :: int
  ach_metadata :: "(string \<times> MetaValue) list option"

record Progress =
  current :: real
  target :: real
  percentage :: real

record AchievementCheck =
  achieved :: bool
  achievement :: "Achievement option"
  progress :: "Progress option"

definition achievedCheck :: "Achievement \<Rightarrow> AchievementCheck" where
  "achievedCheck a = \<lparr> achieved = True, achievement = Some a, progress = None \<rparr>"

definition progressCheck :: "real \<Rightarrow> real \<Rightarrow> AchievementCheck" where
  "progressCheck cur tgt =
     \<lparr> achieved = False, achievement = None,
       progress = Some \<lparr> current = cur, target = tgt, percentage = (cur / tgt) * 100 \<rparr> \<rparr>"

subsection \<open>Streak achievements\<close>

text \<open>The streak query. \<open>daily_activity\<close> is the list of the distinct UTC days with a
  session, latest first. \<open>streak_group\<close> of the row numbered \<open>n\<close> (from 1) is \<open>n\<close> minus the
  days between now and that day, in Julian days, whose offsets cancel. The result counts
  the rows whose \<open>streak_group\<close> is that of the latest day; no row gives 0.\<close>

definition dailyActivity :: "Database \<Rightarrow> int list" where
  "dailyActivity db = rev (sort (remdups (map (\<lambda>r. utcDay (start_time r)) (sessions db))))"

definition streakGroups :: "int \<Rightarrow> int list \<Rightarrow> real list" where
  "streakGroups now days =
     map (\<lambda>nd. real (fst nd) - (real_of_int now / real_of_int msPerDay - real_of_int (snd nd)))
       (zip [1..<Suc (length days)] days)"

definition streakDays :: "Database \<Rightarrow> int \<Rightarrow> nat" where
  "streakDays db now =
     (case streakGroups now (dailyActivity db) of
        [] \<Rightarrow> 0
      | g # gs \<Rightarrow> length (filter (\<lambda>x. x = g) (g # gs)))"

definition streakMilestones :: "(nat \<times> string \<times> nat list) list" where
  "streakMilestones =
     [(3, ''3-Day Streak'', [0x1F525]),
      (7, ''Week Warrior'', [0x26A1]),
      (14, ''Two Week Champion'', [0x1F4AA]),
      (30, ''Month Master'', [0x1F3C6]),
      (60, ''60-Day Legend'', [0x1F451]),
      (90, ''90-Day Elite'', [0x1F48E]),
      (180, ''Half-Year Hero'', [0x1F31F]),
      (365, ''Year of Excellence'', [0x1F396, 0xFE0F])]"

definition checkStreakAchievements :: "Database \<Rightarrow> int \<Rightarrow> AchievementCheck list" where
  "checkStreakAchievements db now =
     (let currentStreak = streakDays db now in
      concat (map (\<lambda>m.
        let days = fst m; ttl = fst (snd m); ic = snd (snd m) in
        if currentStreak \<ge> days then
          [achievedCheck
             \<lparr> ach_id = ''streak_'' @ string_of_nat days,
               ach_type = Streak,
               title = ttl,
               description = ''Maintained a '' @ string_of_nat days @ ''-day coding streak!'',
               icon = ic,
               unlockedAt = now,
               ach_metadata = Some [(''streakDays'', MNum (real currentStreak))] \<rparr>]
        else if int currentStreak \<ge> int days - 2 then
          [progressCheck (real currentStreak) (real days)]
        else []) streakMilestones))"

subsection \<open>Skill achievements\<close>

text \<open>\<^verbatim>\<open>replace(/\s+/g, '_')\<close>: every maximal run of white space becomes one underscore.
  The flag tells whether the previous character was white space.\<close>

definition isSpace :: "char \<Rightarrow> bool" where
  "isSpace c = ((of_char c :: nat) \<in> {9, 10, 11, 12, 13, 32})"

fun replaceSpaces :: "bool \<Rightarrow> string \<Rightarrow> string" where
  "replaceSpaces inRun [] = []"
| "replaceSpaces inRun (c # cs) =
     (if isSpace c then (if inRun then replaceSpaces True cs else CHR ''_'' # replaceSpaces True cs)
      else c # replaceSpaces False cs)"

definition skillMetadata :: "SkillProficiency \<Rightarrow> (string \<times> MetaValue) list" where
  "skillMetadata skill =
     [(''skill'', MStr (sp_skill skill)),
      (''proficiency'', MNum (real_of_int (sp_proficiency skill))),
      (''usageCount'', MNum (real (sp_usageCount skill)))]"

definition checkSkillAchievements :: "Database \<Rightarrow> int \<Rightarrow> AchievementCheck list" where
  "checkSkillAchievements db now =
     concat (map (\<lambda>skill.
       (if sp_level skill = Expert then
          [achievedCheck
             \<lparr> ach_id = ''skill_expert_'' @ replaceSpaces False (toLowerCase (sp_skill skill)),
               ach_type = Skill,
               title = sp_skill skill @ '' Expert'',
               description = ''Achieved expert level proficiency in '' @ sp_skill skill @ ''!'',
               icon = [0x1F393],
               unlockedAt = now,
               ach_metadata = Some (skillMetadata skill) \<rparr>]
        else []) @
       (if sp_level skill = Advanced then
          [achievedCheck
             \<lparr> ach_id = ''skill_advanced_'' @ replaceSpaces False (toLowerCase (sp_skill skill)),
               ach_type = Skill,
               title = sp_skill skill @ '' Advanced'',
               description = ''Reached advanced level in '' @ sp_skill skill @ ''!'',
               icon = [0x1F4DA],
               unlockedAt = now,
               ach_metadata = Some (skillMetadata skill) \<rparr>]
        else [])) (analyzeSkillProficiency db now))"

subsection \<open>Cost achievements\<close>

text \<open>The cache query sums two columns over the projects whose cache-creation count is
  positive; a sum over no row is \<^verbatim>\<open>NULL\<close>.\<close>

definition cacheRows :: "Database \<Rightarrow> ProjectRow list" where
  "cacheRows db = filter (\<lambda>r. cache_creation_tokens r > 0) (projects db)"

definition cacheReadSum :: "Database \<Rightarrow> int option" where
  "cacheReadSum db =
     (if cacheRows db = [] then None else Some (sum_list (map cache_read_tokens (cacheRows db))))"

definition cacheCreationSum :: "Database \<Rightarrow> int option" where
  "cacheCreationSum db =
     (if cacheRows db = [] then None
      else Some (sum_list (map cache_creation_tokens (cacheRows db))))"

definition hitRatio :: "int \<Rightarrow> int \<Rightarrow> real" where
  "hitRatio cache_read cache_creation =
     (real_of_int cache_read / (real_of_int cache_read + real_of_int cache_creation)) * 100"

text \<open>\<^verbatim>\<open>if (cacheStats.cache_read && cacheStats.cache_creation)\<close>: both sums are present and
  not zero. When the two sums cancel, the quotient of the source is minus infinity, which
  passes neither test; the model says so in a branch of its own. The two tests are the
  arms of one \<^verbatim>\<open>if ... else if\<close>.\<close>

definition checkCostAchievements :: "Database \<Rightarrow> int \<Rightarrow> AchievementCheck list" where
  "checkCostAchievements db now =
     (case (cacheReadSum db, cacheCreationSum db) of
        (Some cache_read, Some cache_creation) \<Rightarrow>
          if cache_read \<noteq> 0 \<and> cache_creation \<noteq> 0 then
            if cache_read + cache_creation = 0 then []
            else if hitRatio cache_read cache_creation \<ge> 90 then
              [achievedCheck
                 \<lparr> ach_id = ''cache_master'',
                   ach_type = Cost,
                   title = ''Cache Master'',
                   description = ''Achieved 90%+ cache hit ratio!'',
                   icon = [0x1F4B0],
                   unlockedAt = now,
                   ach_metadata =
                     Some [(''hitRatio'',
                            MNum (real_of_int (round (hitRatio cache_read cache_creation))))] \<rparr>]
            else if hitRatio cache_read cache_creation \<ge> 80 then
              [achievedCheck
                 \<lparr> ach_id = ''cache_optimizer'',
                   ach_type = Cost,
                   title = ''Cache Optimizer'',
                   description = ''Achieved 80%+ cache hit ratio!'',
                   icon = [0x1F4B8],
                   unlockedAt = now,
                   ach_metadata =
                     Some [(''hitRatio'',
                            MNum (real_of_int (round (hitRatio cache_read cache_creation))))] \<rparr>]
            else []
          else []
      | _ \<Rightarrow> [])"

subsection \<open>Productivity achievements\<close>

definition sessionMilestones :: "(nat \<times> string \<times> nat list) list" where
  "sessionMilestones =
     [(10, ''Getting Started'', [0x1F331]),
      (50, ''Regular User'', [0x1F4CA]),
      (100, ''Power User'', [0x26A1]),
      (250, ''Super User'', [0x1F680]),
      (500, ''Elite Coder'', [0x1F48E]),
      (1000, ''Master Developer'', [0x1F451])]"

definition promptMilestones :: "(nat \<times> string \<times> nat list) list" where
  "promptMilestones =
     [(100, ''Curious Explorer'', [0x1F50D]),
      (500, ''Active Learner'', [0x1F4D6]),
      (1000, ''Dedicated Developer'', [0x1F4BB]),
      (5000, ''Prompt Master'', [0x1F3AF]),
      (10000, ''Prompt Legend'', [0x1F3C5])]"

text \<open>\<^verbatim>\<open>SUM(prompt_count)\<close> over no row is \<^verbatim>\<open>NULL\<close>, which passes no threshold, as the
  sum 0 of the model.\<close>

definition checkProductivityAchievements :: "Database \<Rightarrow> int \<Rightarrow> AchievementCheck list" where
  "checkProductivityAchievements db now =
     (let totalSessions = length (sessions db);
          totalPrompts = sum_list (map prompt_count (sessions db)) in
      concat (map (\<lambda>m.
        let cnt = fst m; ttl = fst (snd m); ic = snd (snd m) in
        if totalSessions \<ge> cnt then
          [achievedCheck
             \<lparr> ach_id = ''sessions_'' @ string_of_nat cnt,
               ach_type = Productivity,
               title = ttl,
               description = ''Completed '' @ string_of_nat cnt @ '' sessions!'',
               icon = ic,
               unlockedAt = now,
               ach_metadata = Some [(''sessionCount'', MNum (real totalSessions))] \<rparr>]
        else []) sessionMilestones) @
      concat (map (\<lambda>m.
        let cnt = fst m; ttl = fst (snd m); ic = snd (snd m) in
        if totalPrompts \<ge> cnt then
          [achievedCheck
             \<lparr> ach_id = ''prompts_'' @ string_of_nat cnt,
               ach_type = Productivity,
               title = ttl,
               description = ''Sent '' @ string_of_nat cnt @ '' prompts!'',
               icon = ic,
               unlockedAt = now,
               ach_metadata = Some [(''promptCount'', MNum (real totalPrompts))] \<rparr>]
        else []) promptMilestones))"

subsection \<open>Milestone achievements\<close>

definition timeMilestones :: "(nat \<times> string \<times> nat list) list" where
  "timeMilestones =
     [(1, ''Welcome Aboard'', [0x1F44B]),
      (7, ''One Week In'', [0x1F4C5]),
      (30, ''One Month Strong'', [0x1F4C6]),
      (90, ''Three Month Veteran'', [0x1F396, 0xFE0F]),
      (180, ''Six Month Pro'', [0x2B50]),
      (365, ''One Year Anniversary'', [0x1F382])]"

text \<open>\<^verbatim>\<open>strftime('%w', start_time)\<close>: the day of the week in UTC, 0 for Sunday; day 0 of
  the epoch was a Thursday.\<close>

definition weekdayOf :: "int \<Rightarrow> int" where
  "weekdayOf t = (utcDay t + 4) mod 7"

definition checkMilestoneAchievements :: "Database \<Rightarrow> int \<Rightarrow> AchievementCheck list" where
  "checkMilestoneAchievements db now =
     (case map start_time (sessions db) of
        [] \<Rightarrow> []
      | t # ts \<Rightarrow>
          (let daysSinceStart = differenceInDays now (fold min ts t) in
           concat (map (\<lambda>m.
             let days = fst m; ttl = fst (snd m); ic = snd (snd m) in
             if daysSinceStart \<ge> int days then
               [achievedCheck
                  \<lparr> ach_id = ''milestone_'' @ string_of_nat days @ ''_days'',
                    ach_type = Milestone,
                    title = ttl,
                    description = string_of_nat days @ '' days since your first session!'',
                    icon = ic,
                    unlockedAt = now,
                    ach_metadata =
                      Some [(''daysSinceStart'', MNum (real_of_int daysSinceStart))] \<rparr>]
             else []) timeMilestones))) @
     (let weekendSessions =
            length (filter (\<lambda>r. weekdayOf (start_time r) \<in> {0, 6}) (sessions db)) in
      if weekendSessions \<ge> 10 then
        [achievedCheck
           \<lparr> ach_id = ''weekend_warrior'',
             ach_type = Milestone,
             title = ''Weekend Warrior'',
             description = ''Completed 10+ weekend coding sessions!'',
             icon = [0x1F3D6, 0xFE0F],
             unlockedAt = now,
             ach_metadata = Some [(''weekendCount'', MNum (real weekendSessions))] \<rparr>]
      else [])"

subsection \<open>New achievements and their persistence\<close>

text \<open>\<^verbatim>\<open>CREATE TABLE IF NOT EXISTS achievements\<close>.\<close>

definition ensureAchievementsTable :: "Database \<Rightarrow> Database" where
  "ensureAchievementsTable db =
     (case achievements db of None \<Rightarrow> db\<lparr> achievements := Some [] \<rparr> | Some rows \<Rightarrow> db)"

definition achievementRows :: "Database \<Rightarrow> AchievementRow list" where
  "achievementRows db = (case achievements db of None \<Rightarrow> [] | Some rows \<Rightarrow> rows)"

definition allChecks :: "Database \<Rightarrow> int \<Rightarrow> AchievementCheck list" where
  "allChecks db now =
     checkStreakAchievements db now @
     checkSkillAchievements db now @
     checkCostAchievements db now @
     checkProductivityAchievements db now @
     checkMilestoneAchievements db now"

text \<open>\<^verbatim>\<open>getNewAchievements\<close> returns the new achievements; its only effect on the store is
  the creation of the table.\<close>

definition getNewAchievements :: "Database \<Rightarrow> int \<Rightarrow> Achievement list \<times> Database" where
  "getNewAchievements db now =
     (let db1 = ensureAchievementsTable db;
          achievedList =
            concat (map (\<lambda>check.
                      case achievement check of
                        Some a \<Rightarrow> if achieved check then [a] else []
                      | None \<Rightarrow> [])
                    (allChecks db1 now));
          unlockedIds = set (map achievement_id (achievementRows db1))
      in (filter (\<lambda>a. ach_id a \<notin> unlockedIds) achievedList, db1))"

text \<open>\<^verbatim>\<open>INSERT OR REPLACE\<close>: a row with the same key is deleted, then the new row is
  inserted.\<close>

definition saveAchievement :: "Database \<Rightarrow> Achievement \<Rightarrow> Database" where
  "saveAchievement db a =
     (let db1 = ensureAchievementsTable db in
      db1\<lparr> achievements :=
             Some (filter (\<lambda>r. achievement_id r \<noteq> ach_id a) (achievementRows db1) @
                   [\<lparr> achievement_id = ach_id a,
                      a_type = ach_type a,
                      a_title = title a,
                      a_description = description a,
                      a_icon = icon a,
                      unlocked_at = unlockedAt a,
                      a_metadata = ach_metadata a \<rparr>]) \<rparr>)"

section \<open>Streak (utils/habit-detector.ts)\<close>

text \<open>The query of \<^verbatim>\<open>calculateStreak\<close>: the distinct UTC days of the sessions of the
  window, latest first. The filter compares the ISO text of \<^verbatim>\<open>start_time\<close>
  (\<^verbatim>\<open>2024-05-01T10:00:00.000Z\<close>) with the text of \<^verbatim>\<open>datetime('now', '-90 days')\<close>
  (\<^verbatim>\<open>2024-02-01 10:00:00\<close>): the first ten characters decide unless the days are equal, and
  then \<^verbatim>\<open>T\<close> is greater than the blank. So a session is in the window exactly when its day
  is not before the day of the cutoff.\<close>

definition recentDays :: "Database \<Rightarrow> int \<Rightarrow> int list" where
  "recentDays db now =
     rev (sort (remdups
       (map (\<lambda>r. utcDay (start_time r))
          (filter (\<lambda>r. utcDay (start_time r) \<ge> utcDay (now - 90 * msPerDay)) (sessions db)))))"

text \<open>The first loop: the \<open>i\<close>-th day must be today minus \<open>i\<close> days, today being the local
  date; the first day that is not ends the loop.\<close>

fun currentStreakLoop :: "int \<Rightarrow> nat \<Rightarrow> nat \<Rightarrow> int list \<Rightarrow> nat" where
  "currentStreakLoop today i currentStreak [] = currentStreak"
| "currentStreakLoop today i currentStreak (dayDate # rest) =
     (if dayDate = today - int i then currentStreakLoop today (Suc i) (Suc currentStreak) rest
      else currentStreak)"

text \<open>The second loop, on the pairs of neighbouring days: \<open>prev\<close> is the day before in the
  list. The state is (\<^verbatim>\<open>longestStreak\<close>, \<^verbatim>\<open>tempStreak\<close>).\<close>

fun longestStreakLoop :: "int \<Rightarrow> nat \<times> nat \<Rightarrow> int list \<Rightarrow> nat \<times> nat" where
  "longestStreakLoop prev st [] = st"
| "longestStreakLoop prev st (cur # rest) =
     (if prev - cur = 1
      then longestStreakLoop cur (max (fst st) (Suc (snd st)), Suc (snd st)) rest
      else longestStreakLoop cur (fst st, 1) rest)"

record StreakResult =
  sr_current :: nat
  sr_longest :: nat
  sr_lastActive :: "int option"

text \<open>\<^verbatim>\<open>calculateStreak\<close>; \<open>tz\<close> is the offset of the local time zone. The last active date
  is local midnight of the latest day.\<close>

definition calculateStreak :: "Database \<Rightarrow> int \<Rightarrow> int \<Rightarrow> StreakResult" where
  "calculateStreak db tz now =
     (case recentDays db now of
        [] \<Rightarrow> \<lparr> sr_current = 0, sr_longest = 0, sr_lastActive = None \<rparr>
      | d # ds \<Rightarrow>
          (let currentStreak = currentStreakLoop (localDay tz now) 0 0 (d # ds);
               longestStreak = fst (longestStreakLoop d (0, 1) ds)
           in \<lparr> sr_current = currentStreak,
                sr_longest = max longestStreak currentStreak,
                sr_lastActive = Some (d * msPerDay - tz) \<rparr>))"

section \<open>Example inputs\<close>

definition promptAt :: "string option \<Rightarrow> int \<Rightarrow> HistoryEntry" where
  "promptAt sid t =
     \<lparr> display = ''prompt'', pastedContents = None, timestamp = t,
       project = ''/work/app'', sessionId = sid \<rparr>"

definition bridgedEntries :: "HistoryEntry list" where
  "bridgedEntries = [promptAt None 0, promptAt None 1200000, promptAt None 2400000]"

definition recurringIdEntries :: "HistoryEntry list" where
  "recurringIdEntries =
     [promptAt (Some ''A'') 0, promptAt (Some ''B'') 1000, promptAt (Some ''A'') 2000]"

definition distantEntries :: "HistoryEntry list" where
  "distantEntries = [promptAt None 0, promptAt (Some []) 5000000]"

definition storedSession :: SessionRow where
  "storedSession =
     \<lparr> session_id = ''s-1'', r_project = ''/work/app'', start_time = 0, end_time = 0,
       prompt_count = 1, duration_ms = 0, first_prompt = ''first'', last_prompt = ''first'',
       created_at = 1000 \<rparr>"

definition resyncedSession :: Session where
  "resyncedSession =
     \<lparr> s_sessionId = ''s-1'', s_project = ''/work/app'', startTime = 0, endTime = 600000,
       promptCount = 2, duration = 600000, firstPrompt = ''first'', lastPrompt = ''second'' \<rparr>"

definition syncHistory :: "HistoryEntry list" where
  "syncHistory = [promptAt None 0, promptAt None 600000]"

definition syncConfig :: "(string \<times> ProjectMetrics) list" where
  "syncConfig =
     [(''/work/app'',
       \<lparr> lastCost = 3 / 2, lastLinesAdded = 10, lastLinesRemoved = 2,
         lastTotalInputTokens = 1000, lastTotalOutputTokens = 500,
         lastTotalCacheCreationInputTokens = 100, lastTotalCacheReadInputTokens = 900 \<rparr>)]"

definition afterFirstSync :: Database where
  "afterFirstSync = snd (syncData emptyDatabase 5000000 (Some syncHistory) (Some syncConfig))"

definition afterSecondSync :: Database where
  "afterSecondSync = snd (syncData afterFirstSync 6000000 (Some syncHistory) (Some syncConfig))"

definition cacheExampleDb :: Database where
  "cacheExampleDb =
     emptyDatabase\<lparr> projects :=
       [\<lparr> project_path = ''/work/app'', first_seen = 0, last_active = 600000,
          total_prompts = 2, total_sessions = 1, total_duration_ms = 600000,
          lines_added = 10, lines_removed = 2, total_cost = 3 / 2,
          input_tokens = 1000, output_tokens = 500,
          cache_creation_tokens = 100, cache_read_tokens = 900, updated_at = 5000000 \<rparr>] \<rparr>"

definition cacheMaster :: "int \<Rightarrow> Achievement" where
  "cacheMaster now =
     \<lparr> ach_id = ''cache_master'', ach_type = Cost, title = ''Cache Master'',
       description = ''Achieved 90%+ cache hit ratio!'', icon = [0x1F4B0],
       unlockedAt = now, ach_metadata = Some [(''hitRatio'', MNum 90)] \<rparr>"

definition sessionOnDay :: "int \<Rightarrow> SessionRow" where
  "sessionOnDay d =
     \<lparr> session_id = ''auto-0'', r_project = ''/work/app'',
       start_time = d * msPerDay + 3600000, end_time = d * msPerDay + 3600000,
       prompt_count = 1, duration_ms = 0, first_prompt = ''prompt'', last_prompt = ''prompt'',
       created_at = d * msPerDay + 3600000 \<rparr>"

definition streakDb :: "int list \<Rightarrow> Database" where
  "streakDb ds = emptyDatabase\<lparr> sessions := map sessionOnDay ds \<rparr>"

definition splitCacheDb :: Database where
  "splitCacheDb =
     emptyDatabase\<lparr> projects :=
       [\<lparr> project_path = ''/work/app'', first_seen = 0, last_active = 600000,
          total_prompts = 2, total_sessions = 1, total_duration_ms = 600000,
          lines_added = 10, lines_removed = 2, total_cost = 3 / 2,
          input_tokens = 1000, output_tokens = 500,
          cache_creation_tokens = 100, cache_read_tokens = 500, updated_at = 5000000 \<rparr>,
        \<lparr> project_path = ''/work/lib'', first_seen = 0, last_active = 600000,
          total_prompts = 1, total_sessions = 1, total_duration_ms = 0,
          lines_added = 0, lines_removed = 0, total_cost = 1 / 2,
          input_tokens = 200, output_tokens = 100,
          cache_creation_tokens = 0, cache_read_tokens = 400, updated_at = 5000000 \<rparr>] \<rparr>"

section \<open>Invariant of the grouping loop\<close>

definition entryInSession :: "HistoryEntry \<Rightarrow> nat \<Rightarrow> Session \<Rightarrow> bool" where
  "entryInSession e k s =
     (s_project s = project e \<and>
      s_sessionId s = sessionIdOrAuto (sessionId e) k \<and>
      startTime s \<le> timestamp e \<and> timestamp e \<le> endTime s)"

definition entryInCurrent :: "HistoryEntry \<Rightarrow> CurrentSession \<Rightarrow> bool" where
  "entryInCurrent e c =
     (c_project c = project e \<and> c_sessionId c = sessionId e \<and>
      c_startTime c \<le> timestamp e \<and> timestamp e \<le> c_endTime c)"

definition entriesOfSession :: "int \<Rightarrow> HistoryEntry list \<Rightarrow> nat \<Rightarrow> nat list" where
  "entriesOfSession g xs k = filter (\<lambda>i. sessionIndex g xs i = k) [0..<length xs]"

definition groupInv ::
  "int \<Rightarrow> HistoryEntry list \<Rightarrow> Session list \<times> CurrentSession option \<Rightarrow> bool" where
  "groupInv g xs st =
     (case snd st of
        None \<Rightarrow> False
      | Some c \<Rightarrow>
          c_prompts c \<noteq> [] \<and>
          c_endTime c = timestamp (last xs) \<and>
          c_sessionId c = sessionId (last xs) \<and>
          c_project c = project (last xs) \<and>
          c_startTime c \<le> c_endTime c \<and>
          (\<forall>s \<in> set (fst st). endTime s \<le> c_startTime c) \<and>
          sorted_wrt (\<lambda>a b. endTime a \<le> startTime b) (fst st) \<and>
          sum_list (map promptCount (fst st)) + length (c_prompts c) = length xs \<and>
          (\<forall>i < length xs.
             (sessionIndex g xs i < length (fst st) \<and>
              entryInSession (xs ! i) (sessionIndex g xs i) (fst st ! sessionIndex g xs i)) \<or>
             (sessionIndex g xs i = length (fst st) \<and> entryInCurrent (xs ! i) c)) \<and>
          (\<forall>k < length (fst st).
             promptCount (fst st ! k) = length (entriesOfSession g xs k)) \<and>
          length (c_prompts c) = length (entriesOfSession g xs (length (fst st))))"

section \<open>Auxiliary notions for the sync proofs\<close>

definition promptsIn :: "(string \<times> SessionStats) list \<Rightarrow> string \<Rightarrow> nat" where
  "promptsIn acc P = (case map_of acc P of None \<Rightarrow> 0 | Some v \<Rightarrow> ss_totalPrompts v)"

definition sessionsIn :: "(string \<times> SessionStats) list \<Rightarrow> string \<Rightarrow> nat" where
  "sessionsIn acc P = (case map_of acc P of None \<Rightarrow> 0 | Some v \<Rightarrow> ss_totalSessions v)"

definition durationIn :: "(string \<times> SessionStats) list \<Rightarrow> string \<Rightarrow> int" where
  "durationIn acc P = (case map_of acc P of None \<Rightarrow> 0 | Some v \<Rightarrow> ss_totalDuration v)"

definition rowsOf :: "Database \<Rightarrow> string \<Rightarrow> ProjectRow list" where
  "rowsOf db P = filter (\<lambda>r. project_path r = P) (projects db)"

definition overwriteRow :: "int \<Rightarrow> ProjectStatsInput \<Rightarrow> ProjectRow option \<Rightarrow> ProjectRow" where
  "overwriteRow now stats old =
     (case old of
        Some r \<Rightarrow>
          r\<lparr> last_active := lastActive stats,
             total_prompts := totalPrompts stats,
             total_sessions := totalSessions stats,
             total_duration_ms := totalDuration stats,
             lines_added := linesAdded stats,
             lines_removed := linesRemoved stats,
             total_cost := totalCost stats,
             input_tokens := inputTokens stats,
             output_tokens := outputTokens stats,
             cache_creation_tokens := cacheCreationTokens stats,
             cache_read_tokens := cacheReadTokens stats,
             updated_at := now \<rparr>
      | None \<Rightarrow>
          \<lparr> project_path = projectPath stats,
            first_seen = firstSeen stats,
            last_active = lastActive stats,
            total_prompts = totalPrompts stats,
            total_sessions = totalSessions stats,
            total_duration_ms = totalDuration stats,
            lines_added = linesAdded stats,
            lines_removed = linesRemoved stats,
            total_cost = totalCost stats,
            input_tokens = inputTokens stats,
            output_tokens = outputTokens stats,
            cache_creation_tokens = cacheCreationTokens stats,
            cache_read_tokens = cacheReadTokens stats,
            updated_at = now \<rparr>)"

section \<open>Auxiliary notions for the achievement proofs\<close>

text \<open>The identifiers of the achievements in a list of checks, and the identifiers stored
  in the achievements table.\<close>

definition checkIds :: "AchievementCheck list \<Rightarrow> string list" where
  "checkIds checks =
     concat (map (\<lambda>c. case achievement c of Some a \<Rightarrow> [ach_id a] | None \<Rightarrow> []) checks)"

definition unlockedIds :: "Database \<Rightarrow> string set" where
  "unlockedIds db = achievement_id ` set (achievementRows db)"

text \<open>The cumulative cache counters of the store: the sums over all project rows.\<close>

definition cacheReadTotal :: "Database \<Rightarrow> int" where
  "cacheReadTotal db = sum_list (map cache_read_tokens (projects db))"

definition cacheCreationTotal :: "Database \<Rightarrow> int" where
  "cacheCreationTotal db = sum_list (map cache_creation_tokens (projects db))"

section \<open>Proofs: session grouping\<close>

lemma groupLoop_snoc: "groupLoop g (xs @ [x]) = groupStep g (groupLoop g xs) x"
  by (simp add: groupLoop_def)

lemma sessionIndex_snoc_old:
  "i < length xs \<Longrightarrow> sessionIndex g (xs @ [x]) i = sessionIndex g xs i"
  by (simp add: sessionIndex_def)

lemma sessionIndex_snoc_new:
  "sessionIndex g (xs @ [x]) (length xs) = length (fst (groupLoop g (xs @ [x])))"
  by (simp add: sessionIndex_def)

lemma entriesOfSession_snoc:
  "entriesOfSession g (xs @ [x]) k =
     entriesOfSession g xs k @
       (if length (fst (groupLoop g (xs @ [x]))) = k then [length xs] else [])"
proof -
  have "filter (\<lambda>i. sessionIndex g (xs @ [x]) i = k) [0..<length xs] =
        filter (\<lambda>i. sessionIndex g xs i = k) [0..<length xs]"
    by (rule filter_cong) (auto simp: sessionIndex_snoc_old)
  then show ?thesis
    by (simp add: entriesOfSession_def sessionIndex_snoc_new)
qed

lemma groupInv_first: "groupInv g [x] (groupLoop g [x])"
  by (simp add: groupInv_def groupLoop_def groupStep_def shouldStartNew_def pushSession_def
      Let_def entryInCurrent_def entriesOfSession_def sessionIndex_def)

lemma groupInvI:
  assumes "c_prompts c \<noteq> []"
    and "c_endTime c = timestamp (last xs)"
    and "c_sessionId c = sessionId (last xs)"
    and "c_project c = project (last xs)"
    and "c_startTime c \<le> c_endTime c"
    and "\<forall>s \<in> set ss. endTime s \<le> c_startTime c"
    and "sorted_wrt (\<lambda>a b. endTime a \<le> startTime b) ss"
    and "sum_list (map promptCount ss) + length (c_prompts c) = length xs"
    and "\<And>i. i < length xs \<Longrightarrow>
          (sessionIndex g xs i < length ss \<and>
           entryInSession (xs ! i) (sessionIndex g xs i) (ss ! sessionIndex g xs i)) \<or>
          (sessionIndex g xs i = length ss \<and> entryInCurrent (xs ! i) c)"
    and "\<And>k. k < length ss \<Longrightarrow> promptCount (ss ! k) = length (entriesOfSession g xs k)"
    and "length (c_prompts c) = length (entriesOfSession g xs (length ss))"
  shows "groupInv g xs (ss, Some c)"
  unfolding groupInv_def using assms by simp

lemma groupInv_step:
  assumes inv: "groupInv g xs (groupLoop g xs)" and le: "timestamp (last xs) \<le> timestamp x"
  shows "groupInv g (xs @ [x]) (groupLoop g (xs @ [x]))"
proof -
  obtain ss c where st: "groupLoop g xs = (ss, Some c)"
    using inv by (cases "groupLoop g xs") (auto simp: groupInv_def split: option.splits)
  note I = inv [unfolded st groupInv_def, simplified]
  have I1: "c_prompts c \<noteq> []" "c_endTime c = timestamp (last xs)"
    "c_sessionId c = sessionId (last xs)" "c_project c = project (last xs)"
    "c_startTime c \<le> c_endTime c" "\<forall>s \<in> set ss. endTime s \<le> c_startTime c"
    "sorted_wrt (\<lambda>a b. endTime a \<le> startTime b) ss"
    "sum_list (map promptCount ss) + length (c_prompts c) = length xs"
    using I by simp_all
  have I2: "\<And>i. i < length xs \<Longrightarrow>
      (sessionIndex g xs i < length ss \<and>
       entryInSession (xs ! i) (sessionIndex g xs i) (ss ! sessionIndex g xs i)) \<or>
      (sessionIndex g xs i = length ss \<and> entryInCurrent (xs ! i) c)"
    using I by simp
  have I3: "\<And>k. k < length ss \<Longrightarrow> promptCount (ss ! k) = length (entriesOfSession g xs k)"
    using I by simp
  have I4: "length (c_prompts c) = length (entriesOfSession g xs (length ss))"
    using I by simp
  have above: "entriesOfSession g xs k = []" if "length ss < k" for k
    using that I2 by (fastforce simp: entriesOfSession_def filter_empty_conv)
  show ?thesis
  proof (cases "shouldStartNew g (Some c) x")
    case True
    let ?ss' = "ss @ [closeSession (length ss) c]"
    let ?c' = "\<lparr> c_sessionId = sessionId x, c_project = project x,
                c_startTime = timestamp x, c_endTime = timestamp x, c_prompts = [x] \<rparr>"
    have st': "groupLoop g (xs @ [x]) = (?ss', Some ?c')"
      using True I1 by (simp add: groupLoop_snoc st groupStep_def pushSession_def Let_def)
    have len: "length (fst (groupLoop g (xs @ [x]))) = Suc (length ss)"
      by (simp add: st')
    have A: "\<forall>s \<in> set ?ss'. endTime s \<le> c_startTime ?c'"
      using I1 le by (auto simp: closeSession_def)
    have B: "sorted_wrt (\<lambda>a b. endTime a \<le> startTime b) ?ss'"
      using I1 by (auto simp: sorted_wrt_append closeSession_def)
    have C: "sum_list (map promptCount ?ss') + length (c_prompts ?c') = length (xs @ [x])"
      using I1 by (simp add: closeSession_def)
    have D: "(sessionIndex g (xs @ [x]) i < length ?ss' \<and>
              entryInSession ((xs @ [x]) ! i) (sessionIndex g (xs @ [x]) i)
                (?ss' ! sessionIndex g (xs @ [x]) i)) \<or>
             (sessionIndex g (xs @ [x]) i = length ?ss' \<and> entryInCurrent ((xs @ [x]) ! i) ?c')"
      if "i < length (xs @ [x])" for i
    proof (cases "i < length xs")
      case True
      then show ?thesis
        using I2 [OF True]
        by (auto simp: sessionIndex_snoc_old nth_append entryInSession_def entryInCurrent_def
            closeSession_def)
    next
      case False
      then have "i = length xs" using that by simp
      then show ?thesis
        by (simp add: sessionIndex_snoc_new len entryInCurrent_def)
    qed
    have E: "promptCount (?ss' ! k) = length (entriesOfSession g (xs @ [x]) k)"
      if "k < length ?ss'" for k
    proof (cases "k < length ss")
      case True
      then show ?thesis using I3 [OF True] by (simp add: entriesOfSession_snoc len nth_append)
    next
      case False
      then have "k = length ss" using that by simp
      then show ?thesis using I4 by (simp add: entriesOfSession_snoc len closeSession_def)
    qed
    have F: "length (c_prompts ?c') = length (entriesOfSession g (xs @ [x]) (length ?ss'))"
      by (simp add: entriesOfSession_snoc len above)
    have I1': "c_prompts ?c' \<noteq> []" "c_endTime ?c' = timestamp (last (xs @ [x]))"
      "c_sessionId ?c' = sessionId (last (xs @ [x]))"
      "c_project ?c' = project (last (xs @ [x]))" "c_startTime ?c' \<le> c_endTime ?c'"
      by simp_all
    show ?thesis
      unfolding st'
      by (rule groupInvI) (rule I1' A B C D E F | assumption)+
  next
    case False
    let ?c' = "c\<lparr> c_endTime := timestamp x, c_prompts := c_prompts c @ [x] \<rparr>"
    have st': "groupLoop g (xs @ [x]) = (ss, Some ?c')"
      using False by (simp add: groupLoop_snoc st groupStep_def Let_def)
    have len: "length (fst (groupLoop g (xs @ [x]))) = length ss"
      by (simp add: st')
    have same: "sessionId x = c_sessionId c" "project x = c_project c"
      using False by (auto simp: shouldStartNew_def)
    have A: "c_startTime ?c' \<le> c_endTime ?c'" "\<forall>s \<in> set ss. endTime s \<le> c_startTime ?c'"
      using I1 le by auto
    have C: "sum_list (map promptCount ss) + length (c_prompts ?c') = length (xs @ [x])"
      using I1 by simp
    have D: "(sessionIndex g (xs @ [x]) i < length ss \<and>
              entryInSession ((xs @ [x]) ! i) (sessionIndex g (xs @ [x]) i)
                (ss ! sessionIndex g (xs @ [x]) i)) \<or>
             (sessionIndex g (xs @ [x]) i = length ss \<and> entryInCurrent ((xs @ [x]) ! i) ?c')"
      if "i < length (xs @ [x])" for i
    proof (cases "i < length xs")
      case True
      then show ?thesis
        using I2 [OF True] le I1
        by (auto simp: sessionIndex_snoc_old nth_append entryInCurrent_def)
    next
      case False
      then have "i = length xs" using that by simp
      then show ?thesis
        using same I1 le by (simp add: sessionIndex_snoc_new len entryInCurrent_def)
    qed
    have E: "promptCount (ss ! k) = length (entriesOfSession g (xs @ [x]) k)"
      if "k < length ss" for k
      using I3 [OF that] that by (simp add: entriesOfSession_snoc len)
    have F: "length (c_prompts ?c') = length (entriesOfSession g (xs @ [x]) (length ss))"
      using I4 by (simp add: entriesOfSession_snoc len)
    have I1': "c_prompts ?c' \<noteq> []" "c_endTime ?c' = timestamp (last (xs @ [x]))"
      "c_sessionId ?c' = sessionId (last (xs @ [x]))"
      "c_project ?c' = project (last (xs @ [x]))"
      using same by simp_all
    show ?thesis
      unfolding st'
      by (rule groupInvI) (rule I1' I1 A C D E F | assumption)+
  qed
qed

lemma groupInv_loop:
  "xs \<noteq> [] \<Longrightarrow> sorted (map timestamp xs) \<Longrightarrow> groupInv g xs (groupLoop g xs)"
proof (induction xs rule: rev_induct)
  case Nil
  then show ?case by simp
next
  case (snoc x xs)
  show ?case
  proof (cases "xs = []")
    case True
    then show ?thesis using groupInv_first [of g x] by simp
  next
    case False
    have srt: "sorted (map timestamp xs)" and le: "timestamp (last xs) \<le> timestamp x"
      using snoc.prems(2) False by (auto simp: sorted_append)
    show ?thesis
      by (rule groupInv_step [OF snoc.IH [OF False srt] le])
  qed
qed


lemma groupIntoSessions_sound:
  fixes entries :: "HistoryEntry list" and g :: int
  assumes ne: "entries \<noteq> []"
  defines "xs \<equiv> sort_key timestamp entries"
  defines "out \<equiv> groupIntoSessions entries g"
  shows "sum_list (map promptCount out) = length entries"
    and "sorted_wrt (\<lambda>a b. endTime a \<le> startTime b) out"
    and "\<And>i. i < length entries \<Longrightarrow>
           sessionIndex g xs i < length out \<and>
           entryInSession (xs ! i) (sessionIndex g xs i) (out ! sessionIndex g xs i)"
    and "\<And>k. k < length out \<Longrightarrow> promptCount (out ! k) = length (entriesOfSession g xs k)"
proof -
  have xne: "xs \<noteq> []" using ne by (metis xs_def length_sort length_0_conv)
  have inv: "groupInv g xs (groupLoop g xs)"
    by (rule groupInv_loop [OF xne]) (simp add: xs_def)
  obtain ss c where st: "groupLoop g xs = (ss, Some c)"
    using inv by (cases "groupLoop g xs") (auto simp: groupInv_def split: option.splits)
  note I = inv [unfolded st groupInv_def, simplified]
  have out: "out = ss @ [closeSession (length ss) c]"
    using ne I by (simp add: out_def groupIntoSessions_def Let_def st [unfolded xs_def]
        pushSession_def)
  show "sum_list (map promptCount out) = length entries"
    using I by (simp add: out closeSession_def xs_def)
  show "sorted_wrt (\<lambda>a b. endTime a \<le> startTime b) out"
    using I by (auto simp: out sorted_wrt_append closeSession_def)
  show "sessionIndex g xs i < length out \<and>
        entryInSession (xs ! i) (sessionIndex g xs i) (out ! sessionIndex g xs i)"
    if "i < length entries" for i
  proof -
    have "i < length xs" using that by (simp add: xs_def)
    then have "(sessionIndex g xs i < length ss \<and>
       entryInSession (xs ! i) (sessionIndex g xs i) (ss ! sessionIndex g xs i)) \<or>
      (sessionIndex g xs i = length ss \<and> entryInCurrent (xs ! i) c)"
      using I by simp
    then show ?thesis
      by (auto simp: out nth_append entryInSession_def entryInCurrent_def closeSession_def)
  qed
  show "promptCount (out ! k) = length (entriesOfSession g xs k)" if "k < length out" for k
  proof (cases "k < length ss")
    case True
    then show ?thesis using I by (simp add: out nth_append)
  next
    case False
    then have "k = length ss" using that by (simp add: out)
    then show ?thesis using I by (simp add: out closeSession_def)
  qed
qed

lemma sessionIndex_Suc:
  assumes "Suc i < length xs" and "sorted (map timestamp xs)"
  shows "sessionIndex g xs (Suc i) =
     (if sessionId (xs ! Suc i) = sessionId (xs ! i) \<and>
         project (xs ! Suc i) = project (xs ! i) \<and>
         timestamp (xs ! Suc i) - timestamp (xs ! i) \<le> g
      then sessionIndex g xs i else Suc (sessionIndex g xs i))"
proof -
  let ?ys = "take (Suc i) xs"
  have yne: "?ys \<noteq> []" using assms(1) by auto
  have ysrt: "sorted (map timestamp ?ys)"
    using assms(2) by (simp flip: take_map)
  have lst: "last ?ys = xs ! i"
    using assms(1) by (simp add: take_Suc_conv_app_nth)
  have inv: "groupInv g ?ys (groupLoop g ?ys)"
    by (rule groupInv_loop [OF yne ysrt])
  obtain ss c where st: "groupLoop g ?ys = (ss, Some c)"
    using inv by (cases "groupLoop g ?ys") (auto simp: groupInv_def split: option.splits)
  note I = inv [unfolded st groupInv_def lst, simplified]
  have tk: "take (Suc (Suc i)) xs = ?ys @ [xs ! Suc i]"
    using assms(1) by (simp add: take_Suc_conv_app_nth)
  have a: "sessionIndex g xs i = length ss"
    by (simp add: sessionIndex_def st)
  have b: "sessionIndex g xs (Suc i) = length (fst (groupStep g (ss, Some c) (xs ! Suc i)))"
    unfolding sessionIndex_def tk groupLoop_snoc st ..
  show ?thesis
    unfolding a b using I
    by (auto simp: groupStep_def shouldStartNew_def pushSession_def Let_def)
qed

lemma sessionIndex_mono:
  assumes "sorted (map timestamp xs)" and "j < length xs" and "i \<le> j"
  shows "sessionIndex g xs i \<le> sessionIndex g xs j"
  using assms(3,2)
proof (induction j rule: dec_induct)
  case base
  then show ?case by simp
next
  case (step n)
  then have "sessionIndex g xs i \<le> sessionIndex g xs n" by simp
  moreover have "sessionIndex g xs n \<le> sessionIndex g xs (Suc n)"
    using sessionIndex_Suc [OF step.prems assms(1), of g] by simp
  ultimately show ?case by simp
qed

lemma sessionIndex_same_iff:
  assumes "sorted (map timestamp xs)" and "j < length xs" and "i \<le> j"
  shows "sessionIndex g xs i = sessionIndex g xs j \<longleftrightarrow>
     (\<forall>k. i \<le> k \<and> k < j \<longrightarrow>
        sessionId (xs ! Suc k) = sessionId (xs ! k) \<and>
        project (xs ! Suc k) = project (xs ! k) \<and>
        timestamp (xs ! Suc k) - timestamp (xs ! k) \<le> g)"
  using assms(3,2)
proof (induction j rule: dec_induct)
  case base
  then show ?case by auto
next
  case (step n)
  have n: "n < length xs" using step.prems by simp
  have IH: "sessionIndex g xs i = sessionIndex g xs n \<longleftrightarrow>
     (\<forall>k. i \<le> k \<and> k < n \<longrightarrow>
        sessionId (xs ! Suc k) = sessionId (xs ! k) \<and>
        project (xs ! Suc k) = project (xs ! k) \<and>
        timestamp (xs ! Suc k) - timestamp (xs ! k) \<le> g)"
    using step.IH n by simp
  have m1: "sessionIndex g xs i \<le> sessionIndex g xs n"
    by (rule sessionIndex_mono [OF assms(1) n step.hyps(1)])
  have sc: "sessionIndex g xs (Suc n) =
     (if sessionId (xs ! Suc n) = sessionId (xs ! n) \<and>
         project (xs ! Suc n) = project (xs ! n) \<and>
         timestamp (xs ! Suc n) - timestamp (xs ! n) \<le> g
      then sessionIndex g xs n else Suc (sessionIndex g xs n))"
    by (rule sessionIndex_Suc [OF step.prems assms(1)])
  show ?case
  proof (cases "sessionId (xs ! Suc n) = sessionId (xs ! n) \<and>
         project (xs ! Suc n) = project (xs ! n) \<and>
         timestamp (xs ! Suc n) - timestamp (xs ! n) \<le> g")
    case True
    then have "sessionIndex g xs (Suc n) = sessionIndex g xs n" using sc by simp
    then show ?thesis using IH True by (auto simp: less_Suc_eq)
  next
    case False
    then have "sessionIndex g xs (Suc n) = Suc (sessionIndex g xs n)" using sc by simp
    then have "sessionIndex g xs i \<noteq> sessionIndex g xs (Suc n)" using m1 by simp
    moreover have "\<not> (\<forall>k. i \<le> k \<and> k < Suc n \<longrightarrow>
        sessionId (xs ! Suc k) = sessionId (xs ! k) \<and>
        project (xs ! Suc k) = project (xs ! k) \<and>
        timestamp (xs ! Suc k) - timestamp (xs ! k) \<le> g)"
      using False step.hyps(1) by (intro notI) (metis lessI)
    ultimately show ?thesis by simp
  qed
qed

lemma string_of_nat_nonempty: "string_of_nat n \<noteq> []"
  by (subst string_of_nat.simps) simp

lemma digit_char_inj: "a < 10 \<Longrightarrow> b < 10 \<Longrightarrow> digitChar a = digitChar b \<Longrightarrow> a = b"
  unfolding digitChar_def by (subst (asm) nth_eq_iff_index_eq) simp_all

lemma string_of_nat_inj: "string_of_nat n = string_of_nat m \<Longrightarrow> n = m"
proof (induction n arbitrary: m rule: less_induct)
  case (less n)
  have sn: "string_of_nat n = (if n < 10 then [digitChar n]
      else string_of_nat (n div 10) @ [digitChar (n mod 10)])"
    by (rule string_of_nat.simps)
  have sm: "string_of_nat m = (if m < 10 then [digitChar m]
      else string_of_nat (m div 10) @ [digitChar (m mod 10)])"
    by (rule string_of_nat.simps)
  show ?case
  proof (cases "n < 10")
    case True
    show ?thesis
    proof (cases "m < 10")
      case m: True
      then show ?thesis using True less.prems sn sm digit_char_inj by simp
    next
      case False
      then show ?thesis using True less.prems sn sm string_of_nat_nonempty [of "m div 10"]
        by (simp add: Cons_eq_append_conv)
    qed
  next
    case False
    show ?thesis
    proof (cases "m < 10")
      case True
      then show ?thesis using False less.prems sn sm string_of_nat_nonempty [of "n div 10"]
        by (simp add: append_eq_Cons_conv)
    next
      case m: False
      have e: "string_of_nat (n div 10) = string_of_nat (m div 10)"
        and d: "digitChar (n mod 10) = digitChar (m mod 10)"
        using False m less.prems sn sm by simp_all
      have "n div 10 = m div 10"
        using less.IH [of "n div 10" "m div 10"] e False by simp
      moreover have "n mod 10 = m mod 10"
        using digit_char_inj [OF _ _ d] by simp
      ultimately show ?thesis by (metis div_mult_mod_eq)
    qed
  qed
qed

lemmas group_eval = groupIntoSessions_def groupLoop_def groupStep_def shouldStartNew_def
  pushSession_def closeSession_def sessionIdOrAuto_def promptAt_def Let_def
  string_of_nat.simps digitChar_def sessionIndex_def



text \<open>
  Claim C3, as the code has it. For the entries in timestamp order, the \<open>i\<close>-th and the
  \<open>j\<close>-th entry (\<open>i < j\<close>) land in the same session exactly when every adjacent pair
  between them keeps the session identifier and the project and is at most the gap apart.
  Hence two entries at most the gap apart, with no identifier or project change from the
  one to the other, share a session; and two entries adjacent in timestamp order that are
  more than the gap apart never do. The gap is measured between neighbours, so entries
  further apart than the gap can share a session when entries in between bridge them.
\<close>

theorem gap_rule_chain:
  "i < j \<and> j < length entries \<longrightarrow>
     (sessionIndex g (sort_key timestamp entries) i = sessionIndex g (sort_key timestamp entries) j
        \<longleftrightarrow>
      (\<forall>k. i \<le> k \<and> k < j \<longrightarrow>
         sessionId (sort_key timestamp entries ! Suc k) = sessionId (sort_key timestamp entries ! k) \<and>
         project (sort_key timestamp entries ! Suc k) = project (sort_key timestamp entries ! k) \<and>
         timestamp (sort_key timestamp entries ! Suc k) - timestamp (sort_key timestamp entries ! k) \<le> g))
     \<and>
     ((\<forall>k. i \<le> k \<and> k \<le> j \<longrightarrow>
         sessionId (sort_key timestamp entries ! k) = sessionId (sort_key timestamp entries ! i) \<and>
         project (sort_key timestamp entries ! k) = project (sort_key timestamp entries ! i)) \<and>
      timestamp (sort_key timestamp entries ! j) - timestamp (sort_key timestamp entries ! i) \<le> g
      \<longrightarrow> sessionIndex g (sort_key timestamp entries) i = sessionIndex g (sort_key timestamp entries) j)
     \<and>
     (j = Suc i \<and>
      timestamp (sort_key timestamp entries ! j) - timestamp (sort_key timestamp entries ! i) > g
      \<longrightarrow> sessionIndex g (sort_key timestamp entries) i \<noteq> sessionIndex g (sort_key timestamp entries) j)"
proof (intro impI)
  let ?xs = "sort_key timestamp entries"
  assume ij: "i < j \<and> j < length entries"
  have srt: "sorted (map timestamp ?xs)" by simp
  have j: "j < length ?xs" and le: "i \<le> j" using ij by simp_all
  note iff = sessionIndex_same_iff [OF srt j le, of g]
  have mono: "timestamp (?xs ! a) \<le> timestamp (?xs ! b)" if "a \<le> b" "b < length ?xs" for a b
    using sorted_nth_mono [OF srt, of a b] that by simp
  have B: "sessionIndex g ?xs i = sessionIndex g ?xs j"
    if same: "\<forall>k. i \<le> k \<and> k \<le> j \<longrightarrow>
         sessionId (?xs ! k) = sessionId (?xs ! i) \<and> project (?xs ! k) = project (?xs ! i)"
      and d: "timestamp (?xs ! j) - timestamp (?xs ! i) \<le> g"
  proof -
    have "sessionId (?xs ! Suc k) = sessionId (?xs ! k) \<and>
          project (?xs ! Suc k) = project (?xs ! k) \<and>
          timestamp (?xs ! Suc k) - timestamp (?xs ! k) \<le> g" if k: "i \<le> k \<and> k < j" for k
    proof -
      have "timestamp (?xs ! i) \<le> timestamp (?xs ! k)" using mono [of i k] k j by simp
      moreover have "timestamp (?xs ! Suc k) \<le> timestamp (?xs ! j)"
        using mono [of "Suc k" j] k j by simp
      ultimately have "timestamp (?xs ! Suc k) - timestamp (?xs ! k) \<le> g" using d by linarith
      moreover have "sessionId (?xs ! Suc k) = sessionId (?xs ! i) \<and>
          project (?xs ! Suc k) = project (?xs ! i)"
        using same [rule_format, of "Suc k"] k by simp
      moreover have "sessionId (?xs ! k) = sessionId (?xs ! i) \<and>
          project (?xs ! k) = project (?xs ! i)"
        using same [rule_format, of k] k by simp
      ultimately show ?thesis by simp
    qed
    then show ?thesis using iff by blast
  qed
  have C: "sessionIndex g ?xs i \<noteq> sessionIndex g ?xs j"
    if "j = Suc i \<and> timestamp (?xs ! j) - timestamp (?xs ! i) > g"
    using that iff by auto
  show "(sessionIndex g ?xs i = sessionIndex g ?xs j \<longleftrightarrow>
      (\<forall>k. i \<le> k \<and> k < j \<longrightarrow>
         sessionId (?xs ! Suc k) = sessionId (?xs ! k) \<and>
         project (?xs ! Suc k) = project (?xs ! k) \<and>
         timestamp (?xs ! Suc k) - timestamp (?xs ! k) \<le> g))
     \<and>
     ((\<forall>k. i \<le> k \<and> k \<le> j \<longrightarrow>
         sessionId (?xs ! k) = sessionId (?xs ! i) \<and> project (?xs ! k) = project (?xs ! i)) \<and>
      timestamp (?xs ! j) - timestamp (?xs ! i) \<le> g
      \<longrightarrow> sessionIndex g ?xs i = sessionIndex g ?xs j)
     \<and>
     (j = Suc i \<and> timestamp (?xs ! j) - timestamp (?xs ! i) > g
      \<longrightarrow> sessionIndex g ?xs i \<noteq> sessionIndex g ?xs j)"
    using iff B C by blast
qed

text \<open>
  Claim C3 as stated fails: three prompts of one project at 0, 20 and 40 minutes with a
  30 minute gap form one session of three prompts, although the first and the last are
  40 minutes apart.
\<close>

theorem gap_rule_counterexample:
  "sort_key timestamp bridgedEntries = bridgedEntries \<and>
   project (bridgedEntries ! 0) = project (bridgedEntries ! 2) \<and>
   sessionId (bridgedEntries ! 0) = sessionId (bridgedEntries ! 2) \<and>
   timestamp (bridgedEntries ! 2) - timestamp (bridgedEntries ! 0) > 1800000 \<and>
   sessionIndex 1800000 (sort_key timestamp bridgedEntries) 0
     = sessionIndex 1800000 (sort_key timestamp bridgedEntries) 2 \<and>
   map promptCount (groupIntoSessions bridgedEntries 1800000) = [3]"
  by (simp add: bridgedEntries_def group_eval)

theorem gap_rule_chain_witness:
  "(0::nat) < 1 \<and> 1 < length bridgedEntries \<and>
   sessionIndex 1000000 (sort_key timestamp bridgedEntries) 0
     \<noteq> sessionIndex 1000000 (sort_key timestamp bridgedEntries) 1 \<and>
   sessionIndex 1800000 (sort_key timestamp bridgedEntries) 0
     = sessionIndex 1800000 (sort_key timestamp bridgedEntries) 1"
  using gap_rule_chain [of 0 1 bridgedEntries 1000000]
    gap_rule_chain [of 0 1 bridgedEntries 1800000]
  by (simp add: bridgedEntries_def group_eval)


lemma recurringIdEntries_sessions:
  "groupIntoSessions recurringIdEntries 1800000 =
     [\<lparr> s_sessionId = ''A'', s_project = ''/work/app'', startTime = 0, endTime = 0,
        promptCount = 1, duration = 0, firstPrompt = ''prompt'', lastPrompt = ''prompt'' \<rparr>,
      \<lparr> s_sessionId = ''B'', s_project = ''/work/app'', startTime = 1000, endTime = 1000,
        promptCount = 1, duration = 0, firstPrompt = ''prompt'', lastPrompt = ''prompt'' \<rparr>,
      \<lparr> s_sessionId = ''A'', s_project = ''/work/app'', startTime = 2000, endTime = 2000,
        promptCount = 1, duration = 0, firstPrompt = ''prompt'', lastPrompt = ''prompt'' \<rparr>]"
  by (simp add: recurringIdEntries_def group_eval)

text \<open>
  Claim C9. Session identifiers of the output need not be unique: with explicit
  identifiers A, B, A on consecutive entries the output holds two different sessions
  named A. Synthesized identifiers are pairwise distinct within a run: when two entries
  without a usable identifier (absent or empty) land in different sessions, each of these
  sessions is named \<^verbatim>\<open>auto-\<close> followed by its own index, and the two names differ.
\<close>

theorem explicit_ids_recur_auto_ids_distinct:
  "(\<exists>es gap i j. i < j \<and> j < length (groupIntoSessions es gap) \<and>
      groupIntoSessions es gap ! i \<noteq> groupIntoSessions es gap ! j \<and>
      s_sessionId (groupIntoSessions es gap ! i) = s_sessionId (groupIntoSessions es gap ! j))
   \<and>
   (i < length entries \<and> j < length entries \<and>
    (sessionId (sort_key timestamp entries ! i) = None \<or>
     sessionId (sort_key timestamp entries ! i) = Some []) \<and>
    (sessionId (sort_key timestamp entries ! j) = None \<or>
     sessionId (sort_key timestamp entries ! j) = Some []) \<and>
    sessionIndex g (sort_key timestamp entries) i \<noteq> sessionIndex g (sort_key timestamp entries) j
    \<longrightarrow>
      sessionIndex g (sort_key timestamp entries) i < length (groupIntoSessions entries g) \<and>
      sessionIndex g (sort_key timestamp entries) j < length (groupIntoSessions entries g) \<and>
      s_sessionId (groupIntoSessions entries g ! sessionIndex g (sort_key timestamp entries) i)
        = ''auto-'' @ string_of_nat (sessionIndex g (sort_key timestamp entries) i) \<and>
      s_sessionId (groupIntoSessions entries g ! sessionIndex g (sort_key timestamp entries) i)
        \<noteq> s_sessionId (groupIntoSessions entries g ! sessionIndex g (sort_key timestamp entries) j))"
proof (intro conjI impI)
  show "\<exists>es gap i j. i < j \<and> j < length (groupIntoSessions es gap) \<and>
      groupIntoSessions es gap ! i \<noteq> groupIntoSessions es gap ! j \<and>
      s_sessionId (groupIntoSessions es gap ! i) = s_sessionId (groupIntoSessions es gap ! j)"
    by (rule exI [of _ recurringIdEntries], rule exI [of _ 1800000],
        rule exI [of _ 0], rule exI [of _ 2])
      (simp add: recurringIdEntries_sessions)
next
  let ?xs = "sort_key timestamp entries"
  let ?out = "groupIntoSessions entries g"
  assume H: "i < length entries \<and> j < length entries \<and>
    (sessionId (?xs ! i) = None \<or> sessionId (?xs ! i) = Some []) \<and>
    (sessionId (?xs ! j) = None \<or> sessionId (?xs ! j) = Some []) \<and>
    sessionIndex g ?xs i \<noteq> sessionIndex g ?xs j"
  then have ne: "entries \<noteq> []" by auto
  have si: "sessionIndex g ?xs i < length ?out \<and>
      entryInSession (?xs ! i) (sessionIndex g ?xs i) (?out ! sessionIndex g ?xs i)"
    using groupIntoSessions_sound(3) [OF ne, of i g] H by simp
  have sj: "sessionIndex g ?xs j < length ?out \<and>
      entryInSession (?xs ! j) (sessionIndex g ?xs j) (?out ! sessionIndex g ?xs j)"
    using groupIntoSessions_sound(3) [OF ne, of j g] H by simp
  have idi: "s_sessionId (?out ! sessionIndex g ?xs i) = ''auto-'' @ string_of_nat (sessionIndex g ?xs i)"
    using si H by (auto simp: entryInSession_def sessionIdOrAuto_def)
  have idj: "s_sessionId (?out ! sessionIndex g ?xs j) = ''auto-'' @ string_of_nat (sessionIndex g ?xs j)"
    using sj H by (auto simp: entryInSession_def sessionIdOrAuto_def)
  show "sessionIndex g ?xs i < length ?out" using si by simp
  show "sessionIndex g ?xs j < length ?out" using sj by simp
  show "s_sessionId (?out ! sessionIndex g ?xs i) = ''auto-'' @ string_of_nat (sessionIndex g ?xs i)"
    by (rule idi)
  show "s_sessionId (?out ! sessionIndex g ?xs i) \<noteq> s_sessionId (?out ! sessionIndex g ?xs j)"
    unfolding idi idj using H string_of_nat_inj by auto
qed

theorem explicit_ids_recur_auto_ids_distinct_witness:
  "(0::nat) < length distantEntries \<and> 1 < length distantEntries \<and>
   sessionId (sort_key timestamp distantEntries ! 0) = None \<and>
   sessionId (sort_key timestamp distantEntries ! 1) = Some [] \<and>
   sessionIndex 1800000 (sort_key timestamp distantEntries) 0
     \<noteq> sessionIndex 1800000 (sort_key timestamp distantEntries) 1 \<and>
   map s_sessionId (groupIntoSessions distantEntries 1800000) = [''auto-0'', ''auto-1''] \<and>
   s_sessionId (groupIntoSessions distantEntries 1800000
       ! sessionIndex 1800000 (sort_key timestamp distantEntries) 0)
     \<noteq> s_sessionId (groupIntoSessions distantEntries 1800000
       ! sessionIndex 1800000 (sort_key timestamp distantEntries) 1)"
  using explicit_ids_recur_auto_ids_distinct [of 0 distantEntries 1 1800000]
  by (simp add: distantEntries_def group_eval)

section \<open>Proofs: skill detection\<close>

lemma lowerChar_idem: "lowerChar (lowerChar c) = lowerChar c"
  by (simp add: lowerChar_def)

lemma toLowerCase_idem: "toLowerCase (toLowerCase s) = toLowerCase s"
  by (simp add: toLowerCase_def lowerChar_idem)

lemma detectLoop_filter:
  "detectLoop lp ts = map name (filter (\<lambda>skill. matchesAnyPattern lp (detectionPatterns skill)) ts)"
  by (induction ts) auto

lemma taxonomy_names_distinct: "distinct (map name SKILL_TAXONOMY)"
  by (simp add: SKILL_TAXONOMY_def)

text \<open>
  Claim C10. For every project path, the detected skill names are pairwise different and
  appear in the order of the taxonomy, and the result does not depend on the letter case
  of the path: the path and its lower-case form give the same result.
\<close>

theorem detectSkillsFromPath_distinct_case_insensitive:
  "distinct (detectSkillsFromPath p) \<and>
   subseq (detectSkillsFromPath p) (map name SKILL_TAXONOMY) \<and>
   detectSkillsFromPath p = detectSkillsFromPath (toLowerCase p)"
proof -
  have "subseq (detectSkillsFromPath p) (map name SKILL_TAXONOMY)"
    by (simp add: detectSkillsFromPath_def detectLoop_filter subseq_map)
  moreover have "distinct (detectSkillsFromPath p)"
    unfolding detectSkillsFromPath_def detectLoop_filter
    by (rule distinct_map_filter [OF taxonomy_names_distinct])
  moreover have "detectSkillsFromPath p = detectSkillsFromPath (toLowerCase p)"
    by (simp add: detectSkillsFromPath_def toLowerCase_idem)
  ultimately show ?thesis by simp
qed

lemma detectSkillsFromPath_same_lower:
  "toLowerCase p = toLowerCase q \<Longrightarrow> detectSkillsFromPath p = detectSkillsFromPath q"
  by (simp add: detectSkillsFromPath_def)

section \<open>Proofs: store and sync\<close>

text \<open>
  Claim C4, as the code has it. When the session's identifier is already stored, the upsert
  changes four columns of that row: end time, prompt count, duration and last prompt.
  Identifier, project, start time, first prompt and creation time keep their stored
  values, no row is added, every row with another identifier stays as it is, and no other
  table changes.
\<close>

theorem upsertSession_conflict_frame:
  "i < length (sessions db) \<and> session_id (sessions db ! i) = s_sessionId session \<longrightarrow>
     length (sessions (upsertSession db now session)) = length (sessions db) \<and>
     sessions (upsertSession db now session) ! i =
       (sessions db ! i)\<lparr> end_time := endTime session,
                          prompt_count := promptCount session,
                          duration_ms := duration session,
                          last_prompt := lastPrompt session \<rparr> \<and>
     session_id (sessions (upsertSession db now session) ! i) = session_id (sessions db ! i) \<and>
     r_project (sessions (upsertSession db now session) ! i) = r_project (sessions db ! i) \<and>
     start_time (sessions (upsertSession db now session) ! i) = start_time (sessions db ! i) \<and>
     first_prompt (sessions (upsertSession db now session) ! i) = first_prompt (sessions db ! i) \<and>
     created_at (sessions (upsertSession db now session) ! i) = created_at (sessions db ! i) \<and>
     (\<forall>j < length (sessions db).
        session_id (sessions db ! j) \<noteq> s_sessionId session \<longrightarrow>
        sessions (upsertSession db now session) ! j = sessions db ! j) \<and>
     prompts (upsertSession db now session) = prompts db \<and>
     projects (upsertSession db now session) = projects db \<and>
     achievements (upsertSession db now session) = achievements db \<and>
     metadata (upsertSession db now session) = metadata db"
proof
  assume H: "i < length (sessions db) \<and> session_id (sessions db ! i) = s_sessionId session"
  then have ex: "\<exists>r \<in> set (sessions db). session_id r = s_sessionId session"
    by (metis nth_mem)
  show "length (sessions (upsertSession db now session)) = length (sessions db) \<and>
     sessions (upsertSession db now session) ! i =
       (sessions db ! i)\<lparr> end_time := endTime session,
                          prompt_count := promptCount session,
                          duration_ms := duration session,
                          last_prompt := lastPrompt session \<rparr> \<and>
     session_id (sessions (upsertSession db now session) ! i) = session_id (sessions db ! i) \<and>
     r_project (sessions (upsertSession db now session) ! i) = r_project (sessions db ! i) \<and>
     start_time (sessions (upsertSession db now session) ! i) = start_time (sessions db ! i) \<and>
     first_prompt (sessions (upsertSession db now session) ! i) = first_prompt (sessions db ! i) \<and>
     created_at (sessions (upsertSession db now session) ! i) = created_at (sessions db ! i) \<and>
     (\<forall>j < length (sessions db).
        session_id (sessions db ! j) \<noteq> s_sessionId session \<longrightarrow>
        sessions (upsertSession db now session) ! j = sessions db ! j) \<and>
     prompts (upsertSession db now session) = prompts db \<and>
     projects (upsertSession db now session) = projects db \<and>
     achievements (upsertSession db now session) = achievements db \<and>
     metadata (upsertSession db now session) = metadata db"
    using H ex by (simp add: upsertSession_def)
qed

theorem upsertSession_conflict_frame_witness:
  "(0::nat) < length (sessions (emptyDatabase\<lparr> sessions := [storedSession] \<rparr>)) \<and>
   session_id (sessions (emptyDatabase\<lparr> sessions := [storedSession] \<rparr>) ! 0)
     = s_sessionId resyncedSession \<and>
   sessions (upsertSession (emptyDatabase\<lparr> sessions := [storedSession] \<rparr>) 9000 resyncedSession) =
     [\<lparr> session_id = ''s-1'', r_project = ''/work/app'', start_time = 0, end_time = 600000,
        prompt_count = 2, duration_ms = 600000, first_prompt = ''first'',
        last_prompt = ''second'', created_at = 1000 \<rparr>]"
  using upsertSession_conflict_frame
    [of 0 "emptyDatabase\<lparr> sessions := [storedSession] \<rparr>" resyncedSession 9000]
  by (simp add: emptyDatabase_def storedSession_def resyncedSession_def upsertSession_def)

text \<open>
  Claim C4 as stated fails: the duration column is not among the three columns the claim
  lets change, yet the upsert of a session with a stored identifier overwrites it.
\<close>

theorem upsertSession_duration_counterexample:
  "session_id (sessions (emptyDatabase\<lparr> sessions := [storedSession] \<rparr>) ! 0)
     = s_sessionId resyncedSession \<and>
   duration_ms (sessions (emptyDatabase\<lparr> sessions := [storedSession] \<rparr>) ! 0) = 0 \<and>
   duration_ms
     (sessions (upsertSession (emptyDatabase\<lparr> sessions := [storedSession] \<rparr>) 9000 resyncedSession) ! 0)
     = 600000"
  by (simp add: emptyDatabase_def storedSession_def resyncedSession_def upsertSession_def)

lemma map_of_bumpStats:
  "map_of (map (\<lambda>kv. if fst kv = k then (fst kv, bumpStats s (snd kv)) else kv) acc) P =
     (if P = k then map_option (bumpStats s) (map_of acc P) else map_of acc P)"
  by (induction acc) auto

lemma addSessionStats_keys:
  "fst ` set (addSessionStats acc s) = insert (s_project s) (fst ` set acc)"
proof (cases "map_of acc (s_project s)")
  case None
  then show ?thesis by (simp add: addSessionStats_def)
next
  case (Some v)
  then have "(s_project s, v) \<in> set acc" by (rule map_of_SomeD)
  then have "s_project s \<in> fst ` set acc" by force
  moreover have "map fst (map (\<lambda>kv. if fst kv = s_project s
        then (fst kv, bumpStats s (snd kv)) else kv) acc) = map fst acc"
    by (induction acc) auto
  then have "fst ` set (map (\<lambda>kv. if fst kv = s_project s
        then (fst kv, bumpStats s (snd kv)) else kv) acc) = fst ` set acc"
    by (metis set_map)
  ultimately show ?thesis using Some by (auto simp: addSessionStats_def)
qed

lemma addSessionStats_totals:
  "promptsIn (addSessionStats acc s) P =
     promptsIn acc P + (if s_project s = P then promptCount s else 0)"
  "sessionsIn (addSessionStats acc s) P =
     sessionsIn acc P + (if s_project s = P then 1 else 0)"
  "durationIn (addSessionStats acc s) P =
     durationIn acc P + (if s_project s = P then duration s else 0)"
  by (auto simp: addSessionStats_def promptsIn_def sessionsIn_def durationIn_def
      map_of_bumpStats bumpStats_def split: option.splits)

lemma projectStats_keys:
  "fst ` set (foldl addSessionStats acc ss) = fst ` set acc \<union> s_project ` set ss"
  by (induction ss arbitrary: acc) (simp_all add: addSessionStats_keys)

lemma projectStats_totals:
  "promptsIn (foldl addSessionStats acc ss) P =
     promptsIn acc P + sum_list (map promptCount (filter (\<lambda>s. s_project s = P) ss))"
  "sessionsIn (foldl addSessionStats acc ss) P =
     sessionsIn acc P + length (filter (\<lambda>s. s_project s = P) ss)"
  "durationIn (foldl addSessionStats acc ss) P =
     durationIn acc P + sum_list (map duration (filter (\<lambda>s. s_project s = P) ss))"
  by (induction ss arbitrary: acc) (simp_all add: addSessionStats_totals)

lemma uniqueKeys_aux:
  "distinct acc \<Longrightarrow>
     distinct (foldl (\<lambda>acc k. if k \<in> set acc then acc else acc @ [k]) acc ks) \<and>
     set (foldl (\<lambda>acc k. if k \<in> set acc then acc else acc @ [k]) acc ks) = set acc \<union> set ks"
proof (induction ks arbitrary: acc)
  case Nil
  then show ?case by simp
next
  case (Cons k ks)
  show ?case
  proof (cases "k \<in> set acc")
    case True
    then show ?thesis using Cons.IH [OF Cons.prems] by auto
  next
    case False
    then have d: "distinct (acc @ [k])" using Cons.prems by simp
    show ?thesis using Cons.IH [OF d] False by auto
  qed
qed

lemma uniqueKeys_distinct: "distinct (uniqueKeys ks)"
  using uniqueKeys_aux [of "[]" ks] by (simp add: uniqueKeys_def)

lemma uniqueKeys_set: "set (uniqueKeys ks) = set ks"
  using uniqueKeys_aux [of "[]" ks] by (simp add: uniqueKeys_def)

lemma upsertProjectStats_alt:
  "upsertProjectStats db now stats =
     (if \<exists>r \<in> set (projects db). project_path r = projectPath stats then
        db\<lparr> projects :=
              map (\<lambda>r. if project_path r = projectPath stats
                        then overwriteRow now stats (Some r) else r) (projects db) \<rparr>
      else db\<lparr> projects := projects db @ [overwriteRow now stats None] \<rparr>)"
  by (simp add: upsertProjectStats_def overwriteRow_def)

lemma overwriteRow_path [simp]: "project_path (overwriteRow now stats (Some r)) = project_path r"
  by (simp add: overwriteRow_def)

lemma overwriteRow_path_None [simp]: "project_path (overwriteRow now stats None) = projectPath stats"
  by (simp add: overwriteRow_def)

lemma find_overwrite:
  "find (\<lambda>r. project_path r = P)
     (map (\<lambda>r. if project_path r = P then overwriteRow now stats (Some r) else r) rs) =
   map_option (\<lambda>r. overwriteRow now stats (Some r)) (find (\<lambda>r. project_path r = P) rs)"
  by (induction rs) auto

lemma find_app:
  "find Q (xs @ ys) = (case find Q xs of None \<Rightarrow> find Q ys | Some x \<Rightarrow> Some x)"
  by (induction xs) auto

lemma upsertProjectStats_find_same:
  assumes "projectPath stats = P"
  shows "find (\<lambda>r. project_path r = P) (projects (upsertProjectStats db now stats)) =
     Some (overwriteRow now stats (find (\<lambda>r. project_path r = P) (projects db)))"
proof (cases "\<exists>r \<in> set (projects db). project_path r = P")
  case True
  then obtain old where old: "find (\<lambda>r. project_path r = P) (projects db) = Some old"
    by (cases "find (\<lambda>r. project_path r = P) (projects db)") (auto simp: find_None_iff)
  show ?thesis
    using True old
    by (simp add: upsertProjectStats_alt assms find_overwrite)
next
  case False
  then have none: "find (\<lambda>r. project_path r = P) (projects db) = None"
    by (simp add: find_None_iff)
  show ?thesis
    using False none
    by (simp add: upsertProjectStats_alt assms find_app)
qed

lemma filter_overwrite_other:
  "k \<noteq> P \<Longrightarrow>
   filter (\<lambda>r. project_path r = P)
     (map (\<lambda>r. if project_path r = k then overwriteRow now stats (Some r) else r) rs) =
   filter (\<lambda>r. project_path r = P) rs"
  by (induction rs) auto

lemma upsertProjectStats_other:
  assumes "projectPath stats \<noteq> P"
  shows "rowsOf (upsertProjectStats db now stats) P = rowsOf db P"
  using assms by (simp add: upsertProjectStats_alt rowsOf_def filter_overwrite_other)

lemma find_rowsOf:
  "find (\<lambda>r. project_path r = P) (projects db) = (case rowsOf db P of [] \<Rightarrow> None | r # _ \<Rightarrow> Some r)"
proof -
  have "find Q rs = (case filter Q rs of [] \<Rightarrow> None | r # _ \<Rightarrow> Some r)" for Q and rs :: "ProjectRow list"
    by (induction rs) auto
  then show ?thesis by (simp add: rowsOf_def)
qed

lemma upsertProjects_fold_other:
  assumes "\<And>path. projectPath (g path) = path" and "P \<notin> set ks"
  shows "rowsOf (foldl (\<lambda>d path. upsertProjectStats d now (g path)) d ks) P = rowsOf d P"
  using assms(2)
proof (induction ks arbitrary: d)
  case Nil
  then show ?case by simp
next
  case (Cons k ks)
  have "projectPath (g k) \<noteq> P" using Cons.prems assms(1) by auto
  then show ?case using Cons by (simp add: upsertProjectStats_other)
qed

lemma upsertProjects_fold_same:
  assumes g: "\<And>path. projectPath (g path) = path" and "P \<in> set ks" and "distinct ks"
  shows "find (\<lambda>r. project_path r = P)
           (projects (foldl (\<lambda>d path. upsertProjectStats d now (g path)) d ks)) =
         Some (overwriteRow now (g P) (find (\<lambda>r. project_path r = P) (projects d)))"
  using assms(2,3)
proof (induction ks arbitrary: d)
  case Nil
  then show ?case by simp
next
  case (Cons k ks)
  show ?case
  proof (cases "k = P")
    case True
    then have "P \<notin> set ks" using Cons.prems by simp
    then have "rowsOf (foldl (\<lambda>d path. upsertProjectStats d now (g path))
                 (upsertProjectStats d now (g P)) ks) P
               = rowsOf (upsertProjectStats d now (g P)) P"
      by (rule upsertProjects_fold_other [OF g])
    then have "find (\<lambda>r. project_path r = P)
                 (projects (foldl (\<lambda>d path. upsertProjectStats d now (g path))
                    (upsertProjectStats d now (g P)) ks))
               = find (\<lambda>r. project_path r = P) (projects (upsertProjectStats d now (g P)))"
      by (simp add: find_rowsOf)
    then show ?thesis
      using True by (simp add: upsertProjectStats_find_same [OF g])
  next
    case False
    then have in_ks: "P \<in> set ks" and d: "distinct ks" using Cons.prems by auto
    have "projectPath (g k) \<noteq> P" using False g by simp
    then have "rowsOf (upsertProjectStats d now (g k)) P = rowsOf d P"
      by (rule upsertProjectStats_other)
    then have same: "find (\<lambda>r. project_path r = P) (projects (upsertProjectStats d now (g k)))
        = find (\<lambda>r. project_path r = P) (projects d)"
      by (simp add: find_rowsOf)
    show ?thesis
      using Cons.IH [OF in_ks d, of "upsertProjectStats d now (g k)"] same by simp
  qed
qed

lemma insertSessions_projects: "projects (insertSessions db now ss) = projects db"
  unfolding insertSessions_def
  by (induction ss arbitrary: db) (simp_all add: upsertSession_def)

lemma insertPromptFor_projects:
  "projects (fst (insertPromptFor now ss st entry)) = projects (fst st)"
  by (simp add: insertPromptFor_def insertPrompt_def split: option.splits)

lemma insertPrompts_projects: "projects (fst (insertPrompts db now ss todo)) = projects db"
proof -
  have "projects (fst (foldl (insertPromptFor now ss) st todo)) = projects (fst st)" for st
    by (induction todo arbitrary: st) (simp_all add: insertPromptFor_projects)
  then show ?thesis by (simp add: insertPrompts_def)
qed

lemma setMetadata_projects: "projects (setMetadata db now k v) = projects db"
  by (simp add: setMetadata_def)

lemma mergedStats_path: "projectPath (mergedStats now ps cfg path) = path"
  by (simp add: mergedStats_def Let_def)

lemma mergedStats_totals:
  "totalPrompts (mergedStats now ps cfg P) = promptsIn ps P"
  "totalSessions (mergedStats now ps cfg P) = sessionsIn ps P"
  "totalDuration (mergedStats now ps cfg P) = durationIn ps P"
  by (simp_all add: mergedStats_def Let_def promptsIn_def sessionsIn_def durationIn_def)

lemma mergedStats_config:
  "totalCost (mergedStats now ps cfg P) = (case map_of cfg P of Some m \<Rightarrow> lastCost m | None \<Rightarrow> 0)"
  "inputTokens (mergedStats now ps cfg P) =
     (case map_of cfg P of Some m \<Rightarrow> lastTotalInputTokens m | None \<Rightarrow> 0)"
  "outputTokens (mergedStats now ps cfg P) =
     (case map_of cfg P of Some m \<Rightarrow> lastTotalOutputTokens m | None \<Rightarrow> 0)"
  "cacheCreationTokens (mergedStats now ps cfg P) =
     (case map_of cfg P of Some m \<Rightarrow> lastTotalCacheCreationInputTokens m | None \<Rightarrow> 0)"
  "cacheReadTokens (mergedStats now ps cfg P) =
     (case map_of cfg P of Some m \<Rightarrow> lastTotalCacheReadInputTokens m | None \<Rightarrow> 0)"
  by (simp_all add: mergedStats_def Let_def)

lemma overwriteRow_fields:
  "total_prompts (overwriteRow now stats old) = totalPrompts stats"
  "total_sessions (overwriteRow now stats old) = totalSessions stats"
  "total_duration_ms (overwriteRow now stats old) = totalDuration stats"
  "total_cost (overwriteRow now stats old) = totalCost stats"
  "input_tokens (overwriteRow now stats old) = inputTokens stats"
  "output_tokens (overwriteRow now stats old) = outputTokens stats"
  "cache_creation_tokens (overwriteRow now stats old) = cacheCreationTokens stats"
  "cache_read_tokens (overwriteRow now stats old) = cacheReadTokens stats"
  by (simp_all add: overwriteRow_def split: option.splits)

lemma upsertProjects_fold_cong:
  "projects d1 = projects d2 \<Longrightarrow>
   projects (foldl (\<lambda>d path. upsertProjectStats d now (g path)) d1 ks)
     = projects (foldl (\<lambda>d path. upsertProjectStats d now (g path)) d2 ks)"
proof (induction ks arbitrary: d1 d2)
  case Nil
  then show ?case by simp
next
  case (Cons k ks)
  have e: "projects (upsertProjectStats d1 now (g k)) = projects (upsertProjectStats d2 now (g k))"
    using Cons.prems by (simp add: upsertProjectStats_def)
  show ?case using Cons.IH [OF e] by simp
qed

lemma syncData_projects:
  "projects (snd (syncData db now (Some historyEntries) (Some configProjects))) =
     projects
       (updateProjectStats db now
          (calculateProjectStats (groupIntoSessions (entriesToProcess db historyEntries) 1800000))
          configProjects)"
proof -
  let ?todo = "entriesToProcess db historyEntries"
  let ?ss = "groupIntoSessions ?todo 1800000"
  have p2: "projects (fst (insertPrompts (insertSessions db now ?ss) now ?ss ?todo)) = projects db"
    by (simp add: insertPrompts_projects insertSessions_projects)
  have "snd (syncData db now (Some historyEntries) (Some configProjects)) =
      setMetadata
        (updateProjectStats (fst (insertPrompts (insertSessions db now ?ss) now ?ss ?todo)) now
           (calculateProjectStats ?ss) configProjects)
        now ''last_sync_time'' now"
    by (simp add: syncData_def Let_def)
  then show ?thesis
    unfolding updateProjectStats_def
    by (simp only: setMetadata_projects upsertProjects_fold_cong [OF p2])
qed

lemmas sync_eval = syncData_def entriesToProcess_def getMetadata_def setMetadata_def
  insertSessions_def insertPrompts_def calculateProjectStats_def allProjects_def
  updateProjectStats_def bumpStats_def
  upsertSession_def insertPromptFor_def insertPrompt_def addSessionStats_def uniqueKeys_def
  mergedStats_def upsertProjectStats_def emptyDatabase_def syncHistory_def syncConfig_def
  afterFirstSync_def afterSecondSync_def

lemma afterFirstSync_projects:
  "projects afterFirstSync =
     [\<lparr> project_path = ''/work/app'', first_seen = 0, last_active = 600000,
        total_prompts = 2, total_sessions = 1, total_duration_ms = 600000,
        lines_added = 10, lines_removed = 2, total_cost = 3 / 2,
        input_tokens = 1000, output_tokens = 500,
        cache_creation_tokens = 100, cache_read_tokens = 900, updated_at = 5000000 \<rparr>]"
  by (simp add: sync_eval group_eval)

lemma afterSecondSync_projects:
  "projects afterSecondSync =
     [\<lparr> project_path = ''/work/app'', first_seen = 0, last_active = 6000000,
        total_prompts = 0, total_sessions = 0, total_duration_ms = 0,
        lines_added = 10, lines_removed = 2, total_cost = 3 / 2,
        input_tokens = 1000, output_tokens = 500,
        cache_creation_tokens = 100, cache_read_tokens = 900, updated_at = 6000000 \<rparr>]"
  by (simp add: sync_eval group_eval)

text \<open>
  Claim C2 does not hold of the code. A first sync of a history of two prompts of one
  project, ten minutes apart, with the project in the configuration, stores 2 prompts,
  1 session and 600000 milliseconds for the project. A second sync of the same two files
  finds no entry newer than the watermark, builds no session, and overwrites the row of
  the project, which is in the configuration, with the totals of this sync: 0 prompts,
  0 sessions, 0 milliseconds, each less than after the first sync.
\<close>

theorem syncData_second_sync_resets_totals:
  "project_path (projects afterFirstSync ! 0) = ''/work/app'' \<and>
   project_path (projects afterSecondSync ! 0) = ''/work/app'' \<and>
   total_prompts (projects afterFirstSync ! 0) = 2 \<and>
   total_prompts (projects afterSecondSync ! 0) = 0 \<and>
   total_sessions (projects afterFirstSync ! 0) = 1 \<and>
   total_sessions (projects afterSecondSync ! 0) = 0 \<and>
   total_duration_ms (projects afterFirstSync ! 0) = 600000 \<and>
   total_duration_ms (projects afterSecondSync ! 0) = 0"
  by (simp add: afterFirstSync_projects afterSecondSync_projects)

text \<open>
  How a sync whose two files are read writes the project rows. A project with no session
  among the sessions grouped from the entries newer than the watermark, and absent from
  the configuration, keeps its rows. Every other project has a row whose prompt, session
  and duration columns hold the sums over the sessions of this sync alone, and whose cost
  and token columns hold the values of the configuration.
\<close>

lemma syncData_project_rows:
  "(P \<notin> s_project ` set (groupIntoSessions (entriesToProcess db historyEntries) 1800000) \<and>
    P \<notin> fst ` set configProjects \<longrightarrow>
      filter (\<lambda>r. project_path r = P)
        (projects (snd (syncData db now (Some historyEntries) (Some configProjects))))
      = filter (\<lambda>r. project_path r = P) (projects db))
   \<and>
   (P \<in> s_project ` set (groupIntoSessions (entriesToProcess db historyEntries) 1800000) \<or>
    P \<in> fst ` set configProjects \<longrightarrow>
      (\<exists>row.
         find (\<lambda>r. project_path r = P)
           (projects (snd (syncData db now (Some historyEntries) (Some configProjects))))
           = Some row \<and>
         total_prompts row =
           sum_list (map promptCount
             (filter (\<lambda>s. s_project s = P)
                (groupIntoSessions (entriesToProcess db historyEntries) 1800000))) \<and>
         total_sessions row =
           length (filter (\<lambda>s. s_project s = P)
                     (groupIntoSessions (entriesToProcess db historyEntries) 1800000)) \<and>
         total_duration_ms row =
           sum_list (map duration
             (filter (\<lambda>s. s_project s = P)
                (groupIntoSessions (entriesToProcess db historyEntries) 1800000))) \<and>
         total_cost row =
           (case map_of configProjects P of Some m \<Rightarrow> lastCost m | None \<Rightarrow> 0) \<and>
         input_tokens row =
           (case map_of configProjects P of Some m \<Rightarrow> lastTotalInputTokens m | None \<Rightarrow> 0) \<and>
         output_tokens row =
           (case map_of configProjects P of Some m \<Rightarrow> lastTotalOutputTokens m | None \<Rightarrow> 0) \<and>
         cache_creation_tokens row =
           (case map_of configProjects P of
              Some m \<Rightarrow> lastTotalCacheCreationInputTokens m | None \<Rightarrow> 0) \<and>
         cache_read_tokens row =
           (case map_of configProjects P of
              Some m \<Rightarrow> lastTotalCacheReadInputTokens m | None \<Rightarrow> 0)))"
proof -
  let ?ss = "groupIntoSessions (entriesToProcess db historyEntries) 1800000"
  let ?ps = "calculateProjectStats ?ss"
  let ?g = "mergedStats now ?ps configProjects"
  let ?ks = "allProjects ?ps configProjects"
  let ?db' = "snd (syncData db now (Some historyEntries) (Some configProjects))"
  have pr: "projects ?db' =
      projects (foldl (\<lambda>d path. upsertProjectStats d now (?g path)) db ?ks)"
    by (simp add: syncData_projects updateProjectStats_def)
  have ks: "set ?ks = s_project ` set ?ss \<union> fst ` set configProjects"
    by (simp add: allProjects_def uniqueKeys_set calculateProjectStats_def projectStats_keys)
  have dk: "distinct ?ks" by (simp add: allProjects_def uniqueKeys_distinct)
  have totals: "promptsIn ?ps P = sum_list (map promptCount (filter (\<lambda>s. s_project s = P) ?ss))"
    "sessionsIn ?ps P = length (filter (\<lambda>s. s_project s = P) ?ss)"
    "durationIn ?ps P = sum_list (map duration (filter (\<lambda>s. s_project s = P) ?ss))"
  proof -
    have z: "promptsIn [] P = 0" "sessionsIn [] P = 0" "durationIn [] P = 0"
      by (simp_all add: promptsIn_def sessionsIn_def durationIn_def)
    show "promptsIn ?ps P = sum_list (map promptCount (filter (\<lambda>s. s_project s = P) ?ss))"
      "sessionsIn ?ps P = length (filter (\<lambda>s. s_project s = P) ?ss)"
      "durationIn ?ps P = sum_list (map duration (filter (\<lambda>s. s_project s = P) ?ss))"
      by (simp_all add: calculateProjectStats_def projectStats_totals z)
  qed
  have A: "filter (\<lambda>r. project_path r = P) (projects ?db')
      = filter (\<lambda>r. project_path r = P) (projects db)"
    if "P \<notin> s_project ` set ?ss \<and> P \<notin> fst ` set configProjects"
  proof -
    have "P \<notin> set ?ks" using that ks by simp
    then have "rowsOf (foldl (\<lambda>d path. upsertProjectStats d now (?g path)) db ?ks) P = rowsOf db P"
      by (rule upsertProjects_fold_other [OF mergedStats_path])
    then show ?thesis by (simp add: rowsOf_def pr)
  qed
  have B: "\<exists>row. find (\<lambda>r. project_path r = P) (projects ?db') = Some row \<and>
         total_prompts row = sum_list (map promptCount (filter (\<lambda>s. s_project s = P) ?ss)) \<and>
         total_sessions row = length (filter (\<lambda>s. s_project s = P) ?ss) \<and>
         total_duration_ms row = sum_list (map duration (filter (\<lambda>s. s_project s = P) ?ss)) \<and>
         total_cost row = (case map_of configProjects P of Some m \<Rightarrow> lastCost m | None \<Rightarrow> 0) \<and>
         input_tokens row =
           (case map_of configProjects P of Some m \<Rightarrow> lastTotalInputTokens m | None \<Rightarrow> 0) \<and>
         output_tokens row =
           (case map_of configProjects P of Some m \<Rightarrow> lastTotalOutputTokens m | None \<Rightarrow> 0) \<and>
         cache_creation_tokens row =
           (case map_of configProjects P of
              Some m \<Rightarrow> lastTotalCacheCreationInputTokens m | None \<Rightarrow> 0) \<and>
         cache_read_tokens row =
           (case map_of configProjects P of
              Some m \<Rightarrow> lastTotalCacheReadInputTokens m | None \<Rightarrow> 0)"
    if "P \<in> s_project ` set ?ss \<or> P \<in> fst ` set configProjects"
  proof -
    have "P \<in> set ?ks" using that ks by simp
    then have "find (\<lambda>r. project_path r = P) (projects ?db') =
        Some (overwriteRow now (?g P) (find (\<lambda>r. project_path r = P) (projects db)))"
      unfolding pr by (rule upsertProjects_fold_same [OF mergedStats_path _ dk])
    then show ?thesis
      by (simp add: overwriteRow_fields mergedStats_totals mergedStats_config totals)
  qed
  show ?thesis using A B by blast
qed

section \<open>Proofs: proficiency score\<close>

text \<open>
  Claim C6. For every metrics record, the score is 0.4 times the usage component
  min(100, log10(usageCount + 1) * 40), plus 0.2 times the time component
  min(100, (daysSinceFirstUse / 365) * 50), plus 0.2 times the consistency, plus 0.2 times
  the depth; and the level of the score is expert exactly from 80, advanced exactly from
  60 to below 80, intermediate exactly from 30 to below 60, beginner exactly below 30.
\<close>

theorem proficiency_score_and_level:
  "calculateProficiencyScore metrics =
     0.4 * min 100 (log 10 (real (usageCount metrics) + 1) * 40) +
     0.2 * min 100 ((real_of_int (daysSinceFirstUse metrics) / 365) * 50) +
     0.2 * consistency metrics +
     0.2 * depth metrics \<and>
   (getProficiencyLevel (calculateProficiencyScore metrics) = Expert
      \<longleftrightarrow> calculateProficiencyScore metrics \<ge> 80) \<and>
   (getProficiencyLevel (calculateProficiencyScore metrics) = Advanced
      \<longleftrightarrow> calculateProficiencyScore metrics \<ge> 60 \<and> calculateProficiencyScore metrics < 80) \<and>
   (getProficiencyLevel (calculateProficiencyScore metrics) = Intermediate
      \<longleftrightarrow> calculateProficiencyScore metrics \<ge> 30 \<and> calculateProficiencyScore metrics < 60) \<and>
   (getProficiencyLevel (calculateProficiencyScore metrics) = Beginner
      \<longleftrightarrow> calculateProficiencyScore metrics < 30)"
proof -
  have lv: "(getProficiencyLevel s = Expert \<longleftrightarrow> s \<ge> 80) \<and>
            (getProficiencyLevel s = Advanced \<longleftrightarrow> s \<ge> 60 \<and> s < 80) \<and>
            (getProficiencyLevel s = Intermediate \<longleftrightarrow> s \<ge> 30 \<and> s < 60) \<and>
            (getProficiencyLevel s = Beginner \<longleftrightarrow> s < 30)" for s
    by (simp add: getProficiencyLevel_def)
  have sc: "calculateProficiencyScore metrics =
     0.4 * min 100 (log 10 (real (usageCount metrics) + 1) * 40) +
     0.2 * min 100 ((real_of_int (daysSinceFirstUse metrics) / 365) * 50) +
     0.2 * consistency metrics +
     0.2 * depth metrics"
    by (simp add: calculateProficiencyScore_def Let_def)
  show ?thesis using sc lv [of "calculateProficiencyScore metrics"] by blast
qed

theorem proficiency_score_and_level_witness:
  "calculateProficiencyScore
     \<lparr> usageCount = 9, daysSinceFirstUse = 730, consistency = 50, depth = 40 \<rparr> = 54 \<and>
   getProficiencyLevel
     (calculateProficiencyScore
        \<lparr> usageCount = 9, daysSinceFirstUse = 730, consistency = 50, depth = 40 \<rparr>)
     = Intermediate"
  using proficiency_score_and_level
    [of "\<lparr> usageCount = 9, daysSinceFirstUse = 730, consistency = 50, depth = 40 \<rparr>"]
  by (simp add: calculateProficiencyScore_def getProficiencyLevel_def Let_def)

section \<open>Proofs: achievements\<close>

lemma checkCost_ids:
  assumes "cacheReadSum db = Some r" and "cacheCreationSum db = Some c"
    and "r \<noteq> 0" and "c \<noteq> 0" and "r + c \<noteq> 0"
  shows "checkIds (checkCostAchievements db now) =
     (if hitRatio r c \<ge> 90 then [''cache_master'']
      else if hitRatio r c \<ge> 80 then [''cache_optimizer''] else [])"
  using assms by (simp add: checkCostAchievements_def checkIds_def achievedCheck_def)

lemma sum_filter_zero:
  "(\<And>x. x \<in> set xs \<Longrightarrow> \<not> P x \<Longrightarrow> f x = (0::int)) \<Longrightarrow>
   sum_list (map f (filter P xs)) = sum_list (map f xs)"
  by (induction xs) auto

lemma cache_sums_are_totals:
  assumes "\<forall>row \<in> set (projects db).
             cache_creation_tokens row \<le> 0 \<longrightarrow>
             cache_read_tokens row = 0 \<and> cache_creation_tokens row = 0"
    and "cacheCreationTotal db \<noteq> 0"
  shows "cacheReadSum db = Some (cacheReadTotal db)"
    and "cacheCreationSum db = Some (cacheCreationTotal db)"
proof -
  have r: "sum_list (map cache_read_tokens (cacheRows db)) = cacheReadTotal db"
    unfolding cacheRows_def cacheReadTotal_def
    by (rule sum_filter_zero) (use assms(1) in force)
  have c: "sum_list (map cache_creation_tokens (cacheRows db)) = cacheCreationTotal db"
    unfolding cacheRows_def cacheCreationTotal_def
    by (rule sum_filter_zero) (use assms(1) in force)
  have ne: "cacheRows db \<noteq> []"
  proof
    assume "cacheRows db = []"
    then have "sum_list (map cache_creation_tokens (cacheRows db)) = 0" by simp
    then show False using c assms(2) by simp
  qed
  show "cacheReadSum db = Some (cacheReadTotal db)"
    using r ne by (simp add: cacheReadSum_def)
  show "cacheCreationSum db = Some (cacheCreationTotal db)"
    using c ne by (simp add: cacheCreationSum_def)
qed

text \<open>
  Claim C7, as the code has it. Take a store whose cache tokens all belong to projects
  with a positive cache-creation count, the projects the cache query sums over. When its
  cumulative cache-read tokens are 900 and its cache-creation tokens 100, the hit ratio is
  90 and the cost check emits exactly the achievement \<^verbatim>\<open>cache_master\<close>. The two
  thresholds are the arms of one \<^verbatim>\<open>if ... else if\<close>: with positive totals,
  \<^verbatim>\<open>cache_master\<close> is emitted exactly when the ratio is at least 90, and
  \<^verbatim>\<open>cache_optimizer\<close> exactly when the ratio is at least 80 and below 90, so never both.
\<close>

theorem cache_thresholds_exclusive:
  "(\<forall>row \<in> set (projects db).
      cache_creation_tokens row \<le> 0 \<longrightarrow>
      cache_read_tokens row = 0 \<and> cache_creation_tokens row = 0) \<longrightarrow>
   (cacheReadTotal db = 900 \<and> cacheCreationTotal db = 100 \<longrightarrow>
      hitRatio (cacheReadTotal db) (cacheCreationTotal db) = 90 \<and>
      checkIds (checkCostAchievements db now) = [''cache_master'']) \<and>
   (cacheReadTotal db > 0 \<and> cacheCreationTotal db > 0 \<longrightarrow>
      (''cache_master'' \<in> set (checkIds (checkCostAchievements db now))
         \<longleftrightarrow> hitRatio (cacheReadTotal db) (cacheCreationTotal db) \<ge> 90) \<and>
      (''cache_optimizer'' \<in> set (checkIds (checkCostAchievements db now))
         \<longleftrightarrow> hitRatio (cacheReadTotal db) (cacheCreationTotal db) \<ge> 80 \<and>
             hitRatio (cacheReadTotal db) (cacheCreationTotal db) < 90))"
proof (intro impI conjI)
  assume side: "\<forall>row \<in> set (projects db).
      cache_creation_tokens row \<le> 0 \<longrightarrow>
      cache_read_tokens row = 0 \<and> cache_creation_tokens row = 0"
  {
    assume H: "cacheReadTotal db = 900 \<and> cacheCreationTotal db = 100"
    then have nz: "cacheCreationTotal db \<noteq> 0" by simp
    show "hitRatio (cacheReadTotal db) (cacheCreationTotal db) = 90"
      using H by (simp add: hitRatio_def)
    then show "checkIds (checkCostAchievements db now) = [''cache_master'']"
      using H cache_sums_are_totals [OF side nz]
        checkCost_ids [of db "cacheReadTotal db" "cacheCreationTotal db" now]
      by simp
  }
  {
    assume H: "cacheReadTotal db > 0 \<and> cacheCreationTotal db > 0"
    then have nz: "cacheCreationTotal db \<noteq> 0" by simp
    have ids: "checkIds (checkCostAchievements db now) =
       (if hitRatio (cacheReadTotal db) (cacheCreationTotal db) \<ge> 90 then [''cache_master'']
        else if hitRatio (cacheReadTotal db) (cacheCreationTotal db) \<ge> 80
             then [''cache_optimizer''] else [])"
      using H cache_sums_are_totals [OF side nz]
        checkCost_ids [of db "cacheReadTotal db" "cacheCreationTotal db" now]
      by simp
    show "(''cache_master'' \<in> set (checkIds (checkCostAchievements db now)))
        = (hitRatio (cacheReadTotal db) (cacheCreationTotal db) \<ge> 90)"
      unfolding ids by simp
    show "(''cache_optimizer'' \<in> set (checkIds (checkCostAchievements db now)))
        = (hitRatio (cacheReadTotal db) (cacheCreationTotal db) \<ge> 80 \<and>
           hitRatio (cacheReadTotal db) (cacheCreationTotal db) < 90)"
      unfolding ids by auto
  }
qed

lemma cacheExampleDb_totals:
  "cacheReadTotal cacheExampleDb = 900" "cacheCreationTotal cacheExampleDb = 100"
  "projects cacheExampleDb =
       [\<lparr> project_path = ''/work/app'', first_seen = 0, last_active = 600000,
          total_prompts = 2, total_sessions = 1, total_duration_ms = 600000,
          lines_added = 10, lines_removed = 2, total_cost = 3 / 2,
          input_tokens = 1000, output_tokens = 500,
          cache_creation_tokens = 100, cache_read_tokens = 900, updated_at = 5000000 \<rparr>]"
  by (simp_all add: cacheReadTotal_def cacheCreationTotal_def cacheExampleDb_def
      emptyDatabase_def)

theorem cache_thresholds_exclusive_witness:
  "cacheReadTotal cacheExampleDb = 900 \<and> cacheCreationTotal cacheExampleDb = 100 \<and>
   hitRatio (cacheReadTotal cacheExampleDb) (cacheCreationTotal cacheExampleDb) = 90 \<and>
   checkIds (checkCostAchievements cacheExampleDb 6000000) = [''cache_master''] \<and>
   ''cache_master'' \<in> set (checkIds (checkCostAchievements cacheExampleDb 6000000)) \<and>
   ''cache_optimizer'' \<notin> set (checkIds (checkCostAchievements cacheExampleDb 6000000))"
  using cache_thresholds_exclusive [of cacheExampleDb 6000000]
  by (simp add: cacheExampleDb_totals)

text \<open>
  Claim C7 as stated fails twice. With 900 tokens read and 100 created in one project the
  ratio is at least 90 and the cost check does not emit \<^verbatim>\<open>cache_optimizer\<close>. With the
  same totals spread over a project with 500 read and 100 created and a project with
  400 read and none created, the query leaves the second project out, computes 500 of
  600, and the check emits \<^verbatim>\<open>cache_optimizer\<close> and not \<^verbatim>\<open>cache_master\<close>.
\<close>

theorem cache_thresholds_counterexample:
  "cacheReadTotal cacheExampleDb = 900 \<and> cacheCreationTotal cacheExampleDb = 100 \<and>
   hitRatio 900 100 \<ge> 90 \<and>
   ''cache_optimizer'' \<notin> set (checkIds (checkCostAchievements cacheExampleDb 6000000)) \<and>
   cacheReadTotal splitCacheDb = 900 \<and> cacheCreationTotal splitCacheDb = 100 \<and>
   checkIds (checkCostAchievements splitCacheDb 6000000) = [''cache_optimizer''] \<and>
   ''cache_master'' \<notin> set (checkIds (checkCostAchievements splitCacheDb 6000000))"
  by (simp add: cacheReadTotal_def cacheCreationTotal_def cacheExampleDb_def splitCacheDb_def
      emptyDatabase_def checkCostAchievements_def cacheReadSum_def cacheCreationSum_def
      cacheRows_def checkIds_def achievedCheck_def hitRatio_def)

lemma allChecks_achievements_update:
  "allChecks (db\<lparr> achievements := x \<rparr>) now = allChecks db now"
  by (simp add: allChecks_def checkStreakAchievements_def streakDays_def dailyActivity_def
      checkSkillAchievements_def analyzeSkillProficiency_def sessionsByProject_def
      checkCostAchievements_def cacheReadSum_def cacheCreationSum_def cacheRows_def
      checkProductivityAchievements_def checkMilestoneAchievements_def)

lemma allChecks_ensure: "allChecks (ensureAchievementsTable db) now = allChecks db now"
  by (simp add: ensureAchievementsTable_def allChecks_achievements_update split: option.splits)

lemma achievementRows_ensure: "achievementRows (ensureAchievementsTable db) = achievementRows db"
  by (simp add: ensureAchievementsTable_def achievementRows_def split: option.splits)

lemma ensure_idem: "ensureAchievementsTable (ensureAchievementsTable db) = ensureAchievementsTable db"
  by (simp add: ensureAchievementsTable_def split: option.splits)

lemma getNewAchievements_alt:
  "fst (getNewAchievements db now) =
     filter (\<lambda>a. ach_id a \<notin> unlockedIds db)
       (concat (map (\<lambda>check. case achievement check of
                                Some a \<Rightarrow> if achieved check then [a] else []
                              | None \<Rightarrow> [])
                    (allChecks db now)))"
  "snd (getNewAchievements db now) = ensureAchievementsTable db"
  by (simp_all add: getNewAchievements_def Let_def allChecks_ensure achievementRows_ensure
      unlockedIds_def)

lemma unlockedIds_ensure: "unlockedIds (ensureAchievementsTable db) = unlockedIds db"
  by (simp add: unlockedIds_def achievementRows_ensure)

lemma allChecks_save: "allChecks (saveAchievement db a) now = allChecks db now"
  by (simp add: saveAchievement_def Let_def allChecks_achievements_update allChecks_ensure)

lemma unlockedIds_save: "unlockedIds (saveAchievement db a) = insert (ach_id a) (unlockedIds db)"
  by (auto simp: saveAchievement_def Let_def unlockedIds_def achievementRows_def
      ensureAchievementsTable_def split: option.splits)

lemma unlockedIds_save_all:
  "unlockedIds (foldl saveAchievement db as) = unlockedIds db \<union> ach_id ` set as"
  by (induction as arbitrary: db) (auto simp: unlockedIds_save)

lemma getNew_not_unlocked:
  "a \<in> set (fst (getNewAchievements db now)) \<Longrightarrow> ach_id a \<notin> unlockedIds db"
  by (simp add: getNewAchievements_alt)

text \<open>
  Claim C5. Two calls of \<^verbatim>\<open>getNewAchievements\<close> in a row at the same instant, with nothing
  written in between but the table the first call creates, return the same achievements.
  Once the returned achievements are saved, a later call, at any instant, returns none of
  their identifiers. An identifier stored in the achievements table is never returned as
  new, and the identifier of a saved achievement is stored.
\<close>

theorem new_achievements_idempotent:
  "fst (getNewAchievements (snd (getNewAchievements db now)) now)
     = fst (getNewAchievements db now) \<and>
   (\<forall>a \<in> set (fst (getNewAchievements
                     (foldl saveAchievement (snd (getNewAchievements db now))
                        (fst (getNewAchievements db now)))
                     now')).
      ach_id a \<notin> ach_id ` set (fst (getNewAchievements db now))) \<and>
   (\<forall>r \<in> set (achievementRows db).
      \<forall>a \<in> set (fst (getNewAchievements db now)). ach_id a \<noteq> achievement_id r) \<and>
   (\<forall>b \<in> set (fst (getNewAchievements (saveAchievement db a) now)). ach_id b \<noteq> ach_id a)"
proof (intro conjI ballI)
  show "fst (getNewAchievements (snd (getNewAchievements db now)) now)
     = fst (getNewAchievements db now)"
    by (simp add: getNewAchievements_alt allChecks_ensure unlockedIds_ensure)
next
  fix a
  assume "a \<in> set (fst (getNewAchievements
                     (foldl saveAchievement (snd (getNewAchievements db now))
                        (fst (getNewAchievements db now)))
                     now'))"
  then have "ach_id a \<notin> unlockedIds (foldl saveAchievement (snd (getNewAchievements db now))
                        (fst (getNewAchievements db now)))"
    by (rule getNew_not_unlocked)
  then show "ach_id a \<notin> ach_id ` set (fst (getNewAchievements db now))"
    by (simp add: unlockedIds_save_all)
next
  fix r a
  assume "r \<in> set (achievementRows db)" and "a \<in> set (fst (getNewAchievements db now))"
  then show "ach_id a \<noteq> achievement_id r"
    using getNew_not_unlocked [of a db now] by (auto simp: unlockedIds_def)
next
  fix b
  assume "b \<in> set (fst (getNewAchievements (saveAchievement db a) now))"
  then have "ach_id b \<notin> unlockedIds (saveAchievement db a)"
    by (rule getNew_not_unlocked)
  then show "ach_id b \<noteq> ach_id a" by (simp add: unlockedIds_save)
qed

lemma allChecks_cacheExampleDb:
  "allChecks cacheExampleDb now = [achievedCheck (cacheMaster now)]"
  by (simp add: allChecks_def cacheExampleDb_def emptyDatabase_def
      checkStreakAchievements_def streakDays_def dailyActivity_def streakGroups_def
      streakMilestones_def
      checkSkillAchievements_def analyzeSkillProficiency_def sessionsByProject_def
      buildSkillMap_def uniqueKeys_def
      checkCostAchievements_def cacheReadSum_def cacheCreationSum_def cacheRows_def hitRatio_def
      checkProductivityAchievements_def sessionMilestones_def promptMilestones_def
      checkMilestoneAchievements_def cacheMaster_def achievedCheck_def)

lemma unlockedIds_cacheExampleDb: "unlockedIds cacheExampleDb = {}"
  by (simp add: unlockedIds_def achievementRows_def cacheExampleDb_def emptyDatabase_def)

lemma getNew_cacheExampleDb:
  "fst (getNewAchievements cacheExampleDb now) = [cacheMaster now]"
  by (simp add: getNewAchievements_alt allChecks_cacheExampleDb achievedCheck_def
      unlockedIds_cacheExampleDb)

lemma getNew_after_save:
  "fst (getNewAchievements (saveAchievement cacheExampleDb (cacheMaster now)) now') = []"
  by (simp add: getNewAchievements_alt allChecks_save allChecks_cacheExampleDb achievedCheck_def
      unlockedIds_save cacheMaster_def)

lemma getNew_after_save_ensured:
  "fst (getNewAchievements
          (saveAchievement (ensureAchievementsTable cacheExampleDb) (cacheMaster now)) now') = []"
  by (simp add: getNewAchievements_alt allChecks_save allChecks_ensure allChecks_cacheExampleDb
      achievedCheck_def unlockedIds_save cacheMaster_def)

theorem new_achievements_idempotent_witness:
  "fst (getNewAchievements cacheExampleDb 6000000) = [cacheMaster 6000000] \<and>
   fst (getNewAchievements (snd (getNewAchievements cacheExampleDb 6000000)) 6000000)
     = [cacheMaster 6000000] \<and>
   cacheMaster 6000000 \<in> set (fst (getNewAchievements cacheExampleDb 6000000)) \<and>
   fst (getNewAchievements (saveAchievement cacheExampleDb (cacheMaster 6000000)) 7000000) = [] \<and>
   fst (getNewAchievements
          (foldl saveAchievement (snd (getNewAchievements cacheExampleDb 6000000))
             (fst (getNewAchievements cacheExampleDb 6000000)))
          7000000) = []"
  using new_achievements_idempotent
      [of cacheExampleDb 6000000 7000000 "cacheMaster 6000000"]
  by (simp add: getNew_cacheExampleDb getNew_after_save getNewAchievements_alt(2)
      getNew_after_save_ensured)

section \<open>Proofs: streak\<close>

lemma currentStreakLoop_run:
  "rest = [] \<or> hd rest \<noteq> today - int (i + n) \<Longrightarrow>
   currentStreakLoop today i c (map (\<lambda>k. today - int k) [i..<i + n] @ rest) = c + n"
proof (induction n arbitrary: i c)
  case 0
  then show ?case by (cases rest) auto
next
  case (Suc n)
  have up: "[i..<i + Suc n] = i # [Suc i..<Suc i + n]"
    by (simp add: upt_conv_Cons)
  have "rest = [] \<or> hd rest \<noteq> today - int (Suc i + n)" using Suc.prems by simp
  from Suc.IH [OF this, of "Suc c"] show ?case
    unfolding up by simp
qed

text \<open>
  What the first loop computes: when the days returned by the window query are the local
  date of today, the day before, and so on for \<open>N\<close> days, the current streak is \<open>N\<close>; when
  such a run of \<open>M\<close> days is followed, after a gap, by earlier days, it is \<open>M\<close>.
\<close>

lemma currentStreak_of_local_countdown:
  "(recentDays db now = map (\<lambda>k. localDay tz now - int k) [0..<N] \<longrightarrow>
      sr_current (calculateStreak db tz now) = N) \<and>
   (recentDays db now = map (\<lambda>k. localDay tz now - int k) [0..<M] @ rest \<and>
    rest \<noteq> [] \<and> hd rest < localDay tz now - int M \<longrightarrow>
      sr_current (calculateStreak db tz now) = M)"
proof (intro conjI impI)
  assume H: "recentDays db now = map (\<lambda>k. localDay tz now - int k) [0..<N]"
  have "currentStreakLoop (localDay tz now) 0 0
          (map (\<lambda>k. localDay tz now - int k) [0..<0 + N] @ []) = 0 + N"
    by (rule currentStreakLoop_run) simp
  then have "currentStreakLoop (localDay tz now) 0 0 (recentDays db now) = N"
    using H by simp
  then show "sr_current (calculateStreak db tz now) = N"
    by (cases "recentDays db now") (simp_all add: calculateStreak_def Let_def)
next
  assume H: "recentDays db now = map (\<lambda>k. localDay tz now - int k) [0..<M] @ rest \<and>
    rest \<noteq> [] \<and> hd rest < localDay tz now - int M"
  have "currentStreakLoop (localDay tz now) 0 0
          (map (\<lambda>k. localDay tz now - int k) [0..<0 + M] @ rest) = 0 + M"
    by (rule currentStreakLoop_run) (use H in simp)
  then have "currentStreakLoop (localDay tz now) 0 0 (recentDays db now) = M"
    using H by simp
  then show "sr_current (calculateStreak db tz now) = M"
    by (cases "recentDays db now") (simp_all add: calculateStreak_def Let_def)
qed

text \<open>
  Claim C8 does not hold of the code. The days of the query are UTC dates, today is the
  local date. Eight hours behind UTC, with a session at 01:00 UTC (17:00 local time of the
  day before) on each of the days 100, 99 and 98 and the clock at 02:00 UTC of day 100, the
  active days are three consecutive days ending today in the local calendar (99, 98, 97,
  today being 99) and in the UTC calendar (100, 99, 98, today being 100); the claim asks
  for a current streak of 3, and \<^verbatim>\<open>calculateStreak\<close> returns 0, since the latest day of
  the query, 100, is not the local date 99. With the local zone at UTC it returns 3.
\<close>

theorem calculateStreak_utc_days_local_today:
  "localDay (- 28800000) (start_time (sessions (streakDb [100, 99, 98]) ! 0)) = 99 \<and>
   localDay (- 28800000) (start_time (sessions (streakDb [100, 99, 98]) ! 1)) = 98 \<and>
   localDay (- 28800000) (start_time (sessions (streakDb [100, 99, 98]) ! 2)) = 97 \<and>
   localDay (- 28800000) (100 * msPerDay + 7200000) = 99 \<and>
   recentDays (streakDb [100, 99, 98]) (100 * msPerDay + 7200000) = [100, 99, 98] \<and>
   utcDay (100 * msPerDay + 7200000) = 100 \<and>
   sr_current (calculateStreak (streakDb [100, 99, 98]) (- 28800000) (100 * msPerDay + 7200000))
     = 0 \<and>
   sr_current (calculateStreak (streakDb [100, 99, 98]) 0 (100 * msPerDay + 7200000)) = 3"
  by (simp add: calculateStreak_def recentDays_def streakDb_def sessionOnDay_def
      emptyDatabase_def utcDay_def localDay_def msPerDay_def Let_def)

end
